theory Spec2Isabelle
  imports Complex_Main "HOL-Library.Word" "HOL-Library.Multiset"
begin

section \<open>Numbers and errors\<close>

text \<open>
  JavaScript numbers are modelled as real numbers, and as integers where the source keeps
  them integral: rounding of IEEE doubles, NaN and the infinities are outside the model,
  except where a definition says what it does in their place.  A thrown \<^verbatim>\<open>Error\<close>
  carries its message.
\<close>

datatype js_error = Error string | RangeError | TypeError | IndexSizeError

section \<open>Photo analyzer (server, photos module)\<close>

text \<open>\<^verbatim>\<open>calculateLuma\<close> and \<^verbatim>\<open>calculateSaturation\<close>.\<close>

definition calculateLuma :: "real \<Rightarrow> real \<Rightarrow> real \<Rightarrow> real" where
  "calculateLuma r g b = 0.299 * r + 0.587 * g + 0.114 * b"

definition calculateSaturation :: "real \<Rightarrow> real \<Rightarrow> real \<Rightarrow> real" where
  "calculateSaturation r g b =
     (let mx = max (max r g) b;
          mn = min (min r g) b;
          delta = mx - mn
      in if mx = 0 then 0 else delta / mx)"

text \<open>\<^verbatim>\<open>Math.round\<close> rounds to the nearest integer, a half upwards.\<close>

definition js_round :: "real \<Rightarrow> int" where
  "js_round v = \<lfloor>v + 1 / 2\<rfloor>"

text \<open>
  What the image library reports for a file: its size in pixels and the mean of each
  channel.  An image with fewer than three channels makes \<^verbatim>\<open>stats.channels[2].mean\<close> a
  property read on \<^verbatim>\<open>undefined\<close>, a \<^verbatim>\<open>TypeError\<close>; a file that cannot be decoded
  is the caller's case (\<open>analyze_error\<close> below).  Of the metadata returned, the filename,
  the file size and the MIME type are left out.
\<close>

record image_probe =
  probe_width :: int
  probe_height :: int
  channel_means :: "real list"

record PhotoMetadata =
  meta_width :: int
  meta_height :: int
  meta_avgColor :: "int \<times> int \<times> int"
  meta_luma :: real
  meta_saturation :: real

definition analyzeImage :: "image_probe \<Rightarrow> js_error + PhotoMetadata" where
  "analyzeImage probe =
     (if length (channel_means probe) < 3 then Inl TypeError
      else
        let avgR = js_round (channel_means probe ! 0);
            avgG = js_round (channel_means probe ! 1);
            avgB = js_round (channel_means probe ! 2);
            luma = calculateLuma (real_of_int avgR) (real_of_int avgG) (real_of_int avgB);
            saturation = calculateSaturation (real_of_int avgR) (real_of_int avgG) (real_of_int avgB)
        in Inr \<lparr>meta_width = probe_width probe, meta_height = probe_height probe,
                 meta_avgColor = (avgR, avgG, avgB), meta_luma = luma,
                 meta_saturation = saturation\<rparr>)"

section \<open>Atlas metadata document (api.ts)\<close>

text \<open>
  \<^verbatim>\<open>AtlasData\<close> is the JSON document written by \<^verbatim>\<open>buildAtlas\<close> and read by the client.
\<close>

record AtlasTile =
  tile_id :: int
  tile_filename :: string
  tile_x :: int
  tile_y :: int
  tile_width :: int
  tile_height :: int
  avgColor :: "int \<times> int \<times> int"
  luma :: real
  saturation :: real

record AtlasData =
  tiles :: "AtlasTile list"
  atlas_width :: int
  atlas_height :: int
  tileSize :: int

section \<open>Atlas builder (server, photos module)\<close>

text \<open>
  A row of the \<^verbatim>\<open>photos\<close> table as \<^verbatim>\<open>buildAtlas\<close> selects it.  The rows arrive
  ordered by luma and saturation, descending; the order plays no part below.
\<close>

record photo_row =
  photo_id :: int
  photo_filename :: string
  avg_color_r :: int
  avg_color_g :: int
  avg_color_b :: int
  photo_luma :: real
  photo_saturation :: real

text \<open>
  The file system and Node's \<^verbatim>\<open>path.extname\<close> are inputs of the model:
  \<open>variant_exists f\<close> is \<^verbatim>\<open>existsSync(join(VARIANTS_DIR, f))\<close>.  Failures of the image
  library while a tile is resized or the atlas is composited are not modelled.
\<close>

record atlas_env =
  extname :: "string \<Rightarrow> string"
  variant_exists :: "string \<Rightarrow> bool"

definition ATLAS_TILE_SIZE :: int where
  "ATLAS_TILE_SIZE = 128"

definition ATLAS_MAX_SIZE :: int where
  "ATLAS_MAX_SIZE = 4096"

text \<open>
  \<^verbatim>\<open>s.replace(pat, rep)\<close> with a string pattern replaces the first occurrence only; the
  empty pattern matches at the start.
\<close>

fun replace_first :: "string \<Rightarrow> string \<Rightarrow> string \<Rightarrow> string" where
  "replace_first [] pat rep = (if pat = [] then rep else [])"
| "replace_first (c # cs) pat rep =
     (if take (length pat) (c # cs) = pat then rep @ drop (length pat) (c # cs)
      else c # replace_first cs pat rep)"

definition variantFilename :: "atlas_env \<Rightarrow> photo_row \<Rightarrow> string" where
  "variantFilename env photo =
     replace_first (photo_filename photo) (extname env (photo_filename photo)) ''_512.webp''"

text \<open>
  The name of the 512 pixel WebP file that \<^verbatim>\<open>generateVariants\<close> writes for a photo:
  \<^verbatim>\<open>basename(originalPath, extname(originalPath))\<close>, the filename with its extension
  taken off the end, followed by \<^verbatim>\<open>_512.webp\<close>.
\<close>

definition strip_ext :: "atlas_env \<Rightarrow> string \<Rightarrow> string" where
  "strip_ext env f =
     (let ext = extname env f
      in if ext \<noteq> [] \<and> drop (length f - length ext) f = ext
         then take (length f - length ext) f else f)"

definition written_variant :: "atlas_env \<Rightarrow> photo_row \<Rightarrow> string" where
  "written_variant env photo = strip_ext env (photo_filename photo) @ ''_512.webp''"

text \<open>The lookup of \<^verbatim>\<open>buildAtlas\<close>: \<^verbatim>\<open>existsSync(variantPath)\<close>.\<close>

definition has_variant :: "atlas_env \<Rightarrow> photo_row \<Rightarrow> bool" where
  "has_variant env photo = variant_exists env (variantFilename env photo)"

text \<open>The entry pushed onto \<^verbatim>\<open>atlasData.tiles\<close> for the photo at loop index \<open>i\<close>.\<close>

definition atlas_tile :: "int \<Rightarrow> nat \<Rightarrow> photo_row \<Rightarrow> AtlasTile" where
  "atlas_tile tilesPerRow i photo =
     (let row = int i div tilesPerRow;
          col = int i mod tilesPerRow;
          x = col * ATLAS_TILE_SIZE;
          y = row * ATLAS_TILE_SIZE
      in \<lparr>tile_id = photo_id photo, tile_filename = photo_filename photo,
          tile_x = x, tile_y = y, tile_width = ATLAS_TILE_SIZE, tile_height = ATLAS_TILE_SIZE,
          avgColor = (avg_color_r photo, avg_color_g photo, avg_color_b photo),
          luma = photo_luma photo, saturation = photo_saturation photo\<rparr>)"

text \<open>The loop over the photos; a photo without its 512 pixel variant is passed over.\<close>

fun place_tiles :: "atlas_env \<Rightarrow> int \<Rightarrow> nat \<Rightarrow> photo_row list \<Rightarrow> AtlasTile list" where
  "place_tiles env tilesPerRow i [] = []"
| "place_tiles env tilesPerRow i (photo # photos) =
     (if has_variant env photo
      then atlas_tile tilesPerRow i photo # place_tiles env tilesPerRow (Suc i) photos
      else place_tiles env tilesPerRow (Suc i) photos)"

text \<open>
  \<^verbatim>\<open>buildAtlas\<close>, up to the metadata document it writes to \<^verbatim>\<open>atlas.json\<close>.
\<close>

definition buildAtlas :: "atlas_env \<Rightarrow> photo_row list \<Rightarrow> js_error + AtlasData" where
  "buildAtlas env photos =
     (if length photos = 0 then Inl (Error ''No photos available to build atlas'')
      else
        let tilesPerRow = \<lceil>sqrt (real (length photos))\<rceil>;
            atlasWidth = min (tilesPerRow * ATLAS_TILE_SIZE) ATLAS_MAX_SIZE;
            atlasHeight = \<lceil>real (length photos) / real_of_int tilesPerRow\<rceil> * ATLAS_TILE_SIZE
        in Inr \<lparr>tiles = place_tiles env tilesPerRow 0 photos,
                 atlas_width = atlasWidth, atlas_height = atlasHeight,
                 tileSize = ATLAS_TILE_SIZE\<rparr>)"

section \<open>Glyph mask engine (glyphMap.ts)\<close>

text \<open>
  A \<^verbatim>\<open>GlyphMask\<close> is the interface of the same name; \<^verbatim>\<open>pixels\<close> is a
  \<^verbatim>\<open>Uint8Array\<close>, hence a list of bytes.
\<close>

record GlyphMask =
  width :: int
  height :: int
  pixels :: "8 word list"

text \<open>
  The browser canvas is an input of the model.  \<open>has_context\<close> says whether
  \<^verbatim>\<open>getContext('2d')\<close> returned a context, \<open>measureText\<close> is
  \<^verbatim>\<open>ctx.measureText(text).width\<close> under the font \<^verbatim>\<open>900 <fontSize>px <fontFamily>\<close>,
  and \<open>getImageData\<close> is the RGBA byte array read back after the text was filled at
  \<^verbatim>\<open>(padding, padding)\<close> on a cleared canvas of the given width and height.
\<close>

record canvas =
  has_context :: bool
  measureText :: "int \<Rightarrow> string \<Rightarrow> string \<Rightarrow> real"
  getImageData :: "int \<Rightarrow> string \<Rightarrow> string \<Rightarrow> int \<Rightarrow> int \<Rightarrow> int \<Rightarrow> 8 word list"

text \<open>\<^verbatim>\<open>data[i * 4 + 3]\<close>: a read past the end of a typed array is \<^verbatim>\<open>undefined\<close>.\<close>

definition alpha_at :: "8 word list \<Rightarrow> nat \<Rightarrow> 8 word option" where
  "alpha_at data i = (if i * 4 + 3 < length data then Some (data ! (i * 4 + 3)) else None)"

text \<open>\<^verbatim>\<open>data[i * 4 + 3] > 128 ? 1 : 0\<close>; \<^verbatim>\<open>undefined > 128\<close> is false.\<close>

definition threshold :: "8 word option \<Rightarrow> 8 word" where
  "threshold a = (case a of None \<Rightarrow> 0 | Some v \<Rightarrow> if 128 < v then 1 else 0)"

text \<open>
  The sizes are computed in double arithmetic: \<open>fl x\<close> is the double nearest to the real
  \<open>x\<close>, so that the result of a JavaScript operation is \<open>fl\<close> of the exact result.  The
  rounding function is an input of the model; products of an integer with 2 are exact.
\<close>

definition fontSize_of :: "(real \<Rightarrow> real) \<Rightarrow> real \<Rightarrow> int" where
  "fontSize_of fl scale = \<lfloor>fl (100 * scale)\<rfloor>"

definition padding_of :: "(real \<Rightarrow> real) \<Rightarrow> real \<Rightarrow> int" where
  "padding_of fl scale = \<lfloor>fl (20 * scale)\<rfloor>"

definition mask_width :: "(real \<Rightarrow> real) \<Rightarrow> canvas \<Rightarrow> string \<Rightarrow> real \<Rightarrow> string \<Rightarrow> int" where
  "mask_width fl cv text scale fontFamily =
     \<lceil>fl (measureText cv (fontSize_of fl scale) fontFamily text
          + real_of_int (padding_of fl scale * 2))\<rceil>"

definition mask_height :: "(real \<Rightarrow> real) \<Rightarrow> real \<Rightarrow> int" where
  "mask_height fl scale =
     \<lceil>fl (fl (real_of_int (fontSize_of fl scale) * 1.5)
          + real_of_int (padding_of fl scale * 2))\<rceil>"

text \<open>
  \<^verbatim>\<open>generateTextMask\<close>.  \<^verbatim>\<open>getImageData\<close> throws an \<^verbatim>\<open>IndexSizeError\<close> when the
  width or the height it is asked for is 0, and \<^verbatim>\<open>new Uint8Array\<close> a
  \<^verbatim>\<open>RangeError\<close> for a negative length.
\<close>

definition generateTextMask ::
  "(real \<Rightarrow> real) \<Rightarrow> canvas \<Rightarrow> string \<Rightarrow> real \<Rightarrow> string \<Rightarrow> js_error + GlyphMask" where
  "generateTextMask fl cv text scale fontFamily =
     (if \<not> has_context cv then Inl (Error ''Failed to get canvas context'')
      else
        let fontSize = fontSize_of fl scale;
            padding = padding_of fl scale;
            w = mask_width fl cv text scale fontFamily;
            h = mask_height fl scale
        in if w = 0 \<or> h = 0 then Inl IndexSizeError
           else
             let data = getImageData cv fontSize fontFamily text padding w h
             in if w * h < 0 then Inl RangeError
                else Inr \<lparr>width = w, height = h,
                          pixels = map (\<lambda>i. threshold (alpha_at data i)) [0..<nat (w * h)]\<rparr>)"

section \<open>Tile-to-glyph mapper (glyphMap.ts)\<close>

record TileMapping =
  map_x :: real
  map_y :: real
  tileIndex :: "nat option"
  isForeground :: bool

text \<open>
  \<^verbatim>\<open>shuffleArray\<close>: Fisher-Yates from the last index down to 1.  \<open>rnd\<close> is the stream of
  values returned by \<^verbatim>\<open>Math.random()\<close>, and \<open>k\<close> counts the draws already consumed.
  The destructuring swap reads both cells before it writes.
\<close>

fun shuffle_from :: "(nat \<Rightarrow> real) \<Rightarrow> nat \<Rightarrow> nat \<Rightarrow> 'a list \<Rightarrow> 'a list" where
  "shuffle_from rnd k 0 xs = xs"
| "shuffle_from rnd k (Suc i) xs =
     (let j = nat \<lfloor>rnd k * real (Suc i + 1)\<rfloor>
      in shuffle_from rnd (Suc k) i (xs[Suc i := xs ! j, j := xs ! Suc i]))"

definition shuffleArray :: "(nat \<Rightarrow> real) \<Rightarrow> nat \<Rightarrow> 'a list \<Rightarrow> 'a list" where
  "shuffleArray rnd k array = shuffle_from rnd k (length array - 1) array"

definition fg_score :: "AtlasTile \<Rightarrow> real" where
  "fg_score a = luma a * 0.7 + saturation a * 100 * 0.3"

definition bg_score :: "AtlasTile \<Rightarrow> real" where
  "bg_score a = luma a * 0.5 + (1 - saturation a) * 100 * 0.5"

text \<open>
  \<^verbatim>\<open>Array.prototype.sort\<close> is a stable sort; the comparator \<^verbatim>\<open>scoreB - scoreA\<close> orders by
  descending score and \<^verbatim>\<open>scoreA - scoreB\<close> by ascending score.
\<close>

definition foregroundTiles :: "AtlasData \<Rightarrow> AtlasTile list" where
  "foregroundTiles atlasData = sort_key (\<lambda>a. - fg_score a) (tiles atlasData)"

definition backgroundTiles :: "AtlasData \<Rightarrow> AtlasTile list" where
  "backgroundTiles atlasData = sort_key bg_score (tiles atlasData)"

definition shuffledForeground :: "(nat \<Rightarrow> real) \<Rightarrow> AtlasData \<Rightarrow> AtlasTile list" where
  "shuffledForeground rnd atlasData = shuffleArray rnd 0 (foregroundTiles atlasData)"

definition shuffledBackground :: "(nat \<Rightarrow> real) \<Rightarrow> AtlasData \<Rightarrow> AtlasTile list" where
  "shuffledBackground rnd atlasData =
     shuffleArray rnd (length (tiles atlasData) - 1) (backgroundTiles atlasData)"

text \<open>\<^verbatim>\<open>k % n\<close> on non-negative integers; the result is NaN (\<open>None\<close>) when \<open>n\<close> is 0.\<close>

definition js_mod :: "nat \<Rightarrow> nat \<Rightarrow> nat option" where
  "js_mod k n = (if n = 0 then None else Some (k mod n))"

definition sampleX :: "GlyphMask \<Rightarrow> real \<Rightarrow> nat \<Rightarrow> int" where
  "sampleX gmask tileSz tx = min \<lfloor>real tx * tileSz + tileSz / 2\<rfloor> (width gmask - 1)"

definition sampleY :: "GlyphMask \<Rightarrow> real \<Rightarrow> nat \<Rightarrow> int" where
  "sampleY gmask tileSz ty = min \<lfloor>real ty * tileSz + tileSz / 2\<rfloor> (height gmask - 1)"

text \<open>\<^verbatim>\<open>mask.pixels[idx]\<close>: \<^verbatim>\<open>undefined\<close> (\<open>None\<close>) outside the array.\<close>

definition maskValue :: "GlyphMask \<Rightarrow> int \<Rightarrow> 8 word option" where
  "maskValue gmask idx =
     (if 0 \<le> idx \<and> idx < int (length (pixels gmask)) then Some (pixels gmask ! nat idx) else None)"

definition sample_index :: "GlyphMask \<Rightarrow> real \<Rightarrow> nat \<times> nat \<Rightarrow> int" where
  "sample_index gmask tileSz c =
     sampleY gmask tileSz (snd c) * width gmask + sampleX gmask tileSz (fst c)"

definition cell_isForeground :: "GlyphMask \<Rightarrow> real \<Rightarrow> nat \<times> nat \<Rightarrow> bool" where
  "cell_isForeground gmask tileSz c = (maskValue gmask (sample_index gmask tileSz c) = Some 1)"

text \<open>
  The body of the two nested loops, run over the cells \<open>(tx, ty)\<close> in loop order, with
  the counters \<^verbatim>\<open>foregroundIndex\<close> and \<^verbatim>\<open>backgroundIndex\<close> passed along;
  \<open>nf\<close> and \<open>nb\<close> are the lengths of the two shuffled arrays.
\<close>

fun assign_cells ::
  "GlyphMask \<Rightarrow> real \<Rightarrow> nat \<Rightarrow> nat \<Rightarrow> (nat \<times> nat) list \<Rightarrow> nat \<Rightarrow> nat \<Rightarrow> TileMapping list" where
  "assign_cells gmask tileSz nf nb [] foregroundIndex backgroundIndex = []"
| "assign_cells gmask tileSz nf nb (c # cs) foregroundIndex backgroundIndex =
     (if cell_isForeground gmask tileSz c
      then \<lparr>map_x = real (fst c) * tileSz, map_y = real (snd c) * tileSz,
             tileIndex = js_mod foregroundIndex nf, isForeground = True\<rparr>
           # assign_cells gmask tileSz nf nb cs (foregroundIndex + 1) backgroundIndex
      else \<lparr>map_x = real (fst c) * tileSz, map_y = real (snd c) * tileSz,
             tileIndex = js_mod backgroundIndex nb, isForeground = False\<rparr>
           # assign_cells gmask tileSz nf nb cs foregroundIndex (backgroundIndex + 1))"

definition grid_cells :: "nat \<Rightarrow> nat \<Rightarrow> (nat \<times> nat) list" where
  "grid_cells tilesX tilesY =
     concat (map (\<lambda>ty. map (\<lambda>tx. (tx, ty)) [0..<tilesX]) [0..<tilesY])"

definition tilesX :: "GlyphMask \<Rightarrow> real \<Rightarrow> int" where
  "tilesX gmask tileSz = \<lceil>real_of_int (width gmask) / tileSz\<rceil>"

definition tilesY :: "GlyphMask \<Rightarrow> real \<Rightarrow> int" where
  "tilesY gmask tileSz = \<lceil>real_of_int (height gmask) / tileSz\<rceil>"

text \<open>
  \<^verbatim>\<open>mapTilesToGlyph\<close>.  With \<^verbatim>\<open>tileSize\<close> 0 the quotient \<^verbatim>\<open>mask.height / 0\<close> is
  Infinity for a positive height and the outer loop never ends (\<open>None\<close>); for a height
  that is not positive the quotient is NaN or -Infinity and no cell is visited.
\<close>

definition mapTilesToGlyph ::
  "(nat \<Rightarrow> real) \<Rightarrow> GlyphMask \<Rightarrow> AtlasData \<Rightarrow> real \<Rightarrow> TileMapping list option" where
  "mapTilesToGlyph rnd gmask atlasData tileSz =
     (if tileSz = 0 then (if 0 < height gmask then None else Some [])
      else Some (assign_cells gmask tileSz
                   (length (shuffledForeground rnd atlasData))
                   (length (shuffledBackground rnd atlasData))
                   (grid_cells (nat (tilesX gmask tileSz)) (nat (tilesY gmask tileSz))) 0 0))"

text \<open>
  The render engine (\<^verbatim>\<open>PixiTicker.createScene\<close>) takes the texture of a mapping from
  \<^verbatim>\<open>this.atlas.tiles[mapping.tileIndex]\<close>, and \<^verbatim>\<open>loadAtlas\<close> builds
  \<^verbatim>\<open>atlas.tiles\<close> from \<^verbatim>\<open>data.tiles\<close> in the order of the metadata document.
\<close>

definition createScene_tile :: "AtlasData \<Rightarrow> TileMapping \<Rightarrow> AtlasTile option" where
  "createScene_tile atlasData mapping =
     (case tileIndex mapping of
        None \<Rightarrow> None
      | Some k \<Rightarrow> if k < length (tiles atlasData) then Some (tiles atlasData ! k) else None)"

section \<open>Batch operations over photos (server, photos module)\<close>

text \<open>
  What the image library does with a file is an input of the model: \<open>analyze_error p\<close> is
  the message of the error \<^verbatim>\<open>analyzeImage\<close> throws for the path \<open>p\<close>, if any, and
  \<open>variants_error p\<close> that of \<^verbatim>\<open>generateVariants\<close>.  \<open>original_path f\<close> is
  \<^verbatim>\<open>join(ORIGINAL_DIR, f)\<close> and \<open>ext_lower f\<close> is \<^verbatim>\<open>extname(f).toLowerCase()\<close>.
\<close>

record photo_env =
  analyze_error :: "string \<Rightarrow> string option"
  variants_error :: "string \<Rightarrow> string option"
  basename :: "string \<Rightarrow> string"
  original_path :: "string \<Rightarrow> string"
  ext_lower :: "string \<Rightarrow> string"

text \<open>
  The \<^verbatim>\<open>photos\<close> table is the list of the filenames inserted so far; the column is
  \<^verbatim>\<open>UNIQUE\<close>, and the rowid of a new row is its position.
\<close>

type_synonym photos_table = "string list"

text \<open>
  \<^verbatim>\<open>processPhoto\<close>: the row is inserted before the variants are generated and stays
  when they fail.
\<close>

definition processPhoto ::
  "photo_env \<Rightarrow> photos_table \<Rightarrow> string \<Rightarrow> (js_error + nat) \<times> photos_table" where
  "processPhoto env db originalPath =
     (case analyze_error env originalPath of
        Some msg \<Rightarrow> (Inl (Error msg), db)
      | None \<Rightarrow>
          let filename = basename env originalPath
          in if filename \<in> set db
             then (Inl (Error ''UNIQUE constraint failed: photos.filename''), db)
             else
               let db' = db @ [filename];
                   photoId = length db'
               in (case variants_error env originalPath of
                     Some msg \<Rightarrow> (Inl (Error msg), db')
                   | None \<Rightarrow> (Inr photoId, db')))"

text \<open>
  \<^verbatim>\<open>reindexPhotos\<close> over the entries of the originals directory: the call of
  \<^verbatim>\<open>processPhoto\<close> stands in no \<^verbatim>\<open>try\<close> of its own, so its error leaves the loop.
\<close>

fun reindex_loop ::
  "photo_env \<Rightarrow> photos_table \<Rightarrow> nat \<Rightarrow> string list \<Rightarrow> (js_error + nat) \<times> photos_table" where
  "reindex_loop env db cnt [] = (Inr cnt, db)"
| "reindex_loop env db cnt (file # files) =
     (if ext_lower env file \<notin> set [''.jpg'', ''.jpeg'', ''.png'', ''.webp'']
      then reindex_loop env db cnt files
      else if file \<in> set db then reindex_loop env db cnt files
      else (case processPhoto env db (original_path env file) of
              (Inl e, db') \<Rightarrow> (Inl e, db')
            | (Inr photoId, db') \<Rightarrow> reindex_loop env db' (cnt + 1) files))"

definition reindexPhotos ::
  "photo_env \<Rightarrow> photos_table \<Rightarrow> string list \<Rightarrow> (js_error + nat) \<times> photos_table" where
  "reindexPhotos env db files = reindex_loop env db 0 files"

text \<open>
  \<^verbatim>\<open>handleUpload\<close>: each file is processed inside its own \<^verbatim>\<open>try/catch\<close> and
  contributes one entry to \<^verbatim>\<open>results\<close>.  \<open>UploadDone k n results\<close> is the response
  \<^verbatim>\<open>Processed k of n files\<close>.
\<close>

record upload_file =
  file_path :: string
  originalname :: string

record upload_result =
  res_filename :: string
  res_photoId :: "nat option"
  res_success :: bool
  res_error :: "js_error option"

datatype response =
    Status400 string
  | Status500 js_error
  | UploadDone nat nat "upload_result list"
  | ReindexDone nat

fun upload_loop ::
  "photo_env \<Rightarrow> photos_table \<Rightarrow> upload_file list \<Rightarrow> upload_result list \<times> photos_table" where
  "upload_loop env db [] = ([], db)"
| "upload_loop env db (file # files) =
     (case processPhoto env db (file_path file) of
        (Inr photoId, db') \<Rightarrow>
          (case upload_loop env db' files of
             (results, db'') \<Rightarrow>
               (\<lparr>res_filename = originalname file, res_photoId = Some photoId,
                  res_success = True, res_error = None\<rparr> # results, db''))
      | (Inl e, db') \<Rightarrow>
          (case upload_loop env db' files of
             (results, db'') \<Rightarrow>
               (\<lparr>res_filename = originalname file, res_photoId = None,
                  res_success = False, res_error = Some e\<rparr> # results, db'')))"

definition handleUpload ::
  "photo_env \<Rightarrow> photos_table \<Rightarrow> upload_file list option \<Rightarrow> response \<times> photos_table" where
  "handleUpload env db req_files =
     (case req_files of
        None \<Rightarrow> (Status400 ''No files uploaded'', db)
      | Some files \<Rightarrow>
          (case upload_loop env db files of
             (results, db') \<Rightarrow>
               (UploadDone (length (filter res_success results)) (length files) results, db')))"

definition handleReindexPhotos ::
  "photo_env \<Rightarrow> photos_table \<Rightarrow> string list \<Rightarrow> response \<times> photos_table" where
  "handleReindexPhotos env db files =
     (case reindexPhotos env db files of
        (Inr cnt, db') \<Rightarrow> (ReindexDone cnt, db')
      | (Inl e, db') \<Rightarrow> (Status500 e, db'))"

section \<open>Render and animation engine (pixiTicker.ts)\<close>

datatype scroll_direction = Left | Right

text \<open>
  A sprite with the fields the engine reads and writes; the texture size is that of the
  atlas frame.  A sprite is identified by its position in \<^verbatim>\<open>this.sprites\<close>.
\<close>

record sprite =
  sprite_x :: real
  sprite_y :: real
  sprite_scale :: real
  zIndex :: int
  texture_width :: real
  texture_height :: real

text \<open>The value type of the \<^verbatim>\<open>originalSpriteData\<close> map.\<close>

record sprite_data =
  orig_x :: real
  orig_y :: real
  orig_scale :: real
  orig_zIndex :: int

text \<open>
  The closure of one \<^verbatim>\<open>animateSprite\<close> call: the sprite, the start time, the start
  values read at the call and \<^verbatim>\<open>props\<close>.
\<close>

record anim =
  anim_sprite :: nat
  anim_start :: real
  startScale :: real
  startX :: real
  startY :: real
  props_scale :: "real option"
  props_x :: "real option"
  props_y :: "real option"
  props_duration :: real

text \<open>
  The fields of \<^verbatim>\<open>PixiTicker\<close>.  \<open>has_app\<close>, \<open>has_atlas\<close> and \<open>has_container\<close> say
  that the field is not null; \<open>animations\<close> holds the \<^verbatim>\<open>requestAnimationFrame\<close>
  callbacks of \<^verbatim>\<open>animateSprite\<close> that are pending, in the order they were registered.
\<close>

record ticker =
  has_app :: bool
  has_atlas :: bool
  has_container :: bool
  screen_width :: real
  screen_height :: real
  sprites :: "sprite list"
  originalSpriteData :: "nat \<Rightarrow> sprite_data option"
  scrollSpeed :: real
  scrollDirection :: scroll_direction
  isScrolling :: bool
  scrollOffset :: real
  container_x :: real
  hoveredSprite :: "nat option"
  overlay_visible :: bool
  lastTime :: real
  frameCount :: nat
  fpsTimer :: real
  currentFps :: real
  animations :: "anim list"

text \<open>
  \<^verbatim>\<open>this.originalSpriteData.set(sprite, ...)\<close> followed by \<^verbatim>\<open>this.sprites.push(sprite)\<close>.
\<close>

definition saved_data :: "sprite \<Rightarrow> sprite_data" where
  "saved_data sp = \<lparr>orig_x = sprite_x sp, orig_y = sprite_y sp, orig_scale = sprite_scale sp,
                     orig_zIndex = 0\<rparr>"

definition push_sprite :: "ticker \<Rightarrow> sprite \<Rightarrow> ticker" where
  "push_sprite s sp =
     s\<lparr>originalSpriteData := (originalSpriteData s)(length (sprites s) \<mapsto> saved_data sp),
       sprites := sprites s @ [sp]\<rparr>"

definition duplicateContainerForLoop :: "real \<Rightarrow> ticker \<Rightarrow> ticker" where
  "duplicateContainerForLoop w s =
     (if \<not> has_container s then s
      else foldl (\<lambda>s' sp. push_sprite s' (sp\<lparr>sprite_x := sprite_x sp + w + 100\<rparr>))
             s (sprites s))"

text \<open>
  \<^verbatim>\<open>createScene\<close>, from the point where the sprites of the mappings exist:
  \<open>new_sprites\<close> are the sprites made from the mappings, at
  \<^verbatim>\<open>(mapping.x, mapping.y + offsetY)\<close>, and \<open>containerWidth\<close> is
  \<^verbatim>\<open>containerSize.width\<close>.  The container is a new one, at x = 0.
\<close>

definition createScene :: "sprite list \<Rightarrow> real \<Rightarrow> ticker \<Rightarrow> ticker" where
  "createScene new_sprites containerWidth s =
     (if \<not> (has_app s \<and> has_atlas s) then s
      else duplicateContainerForLoop containerWidth
             ((foldl push_sprite (s\<lparr>has_container := True, container_x := 0\<rparr>) new_sprites)
                \<lparr>overlay_visible := False\<rparr>))"

definition getLoopWidth :: "ticker \<Rightarrow> real" where
  "getLoopWidth s =
     (if length (sprites s) = 0 then 0
      else let halfPoint = length (sprites s) div 2
           in \<bar>sprite_x (sprites s ! halfPoint) - sprite_x (sprites s ! 0)\<bar>)"

text \<open>
  \<^verbatim>\<open>animate\<close>, the ticker callback; \<open>now\<close> is \<^verbatim>\<open>performance.now()\<close>.  The calls of
  \<^verbatim>\<open>onFpsUpdate\<close> and \<^verbatim>\<open>console.warn\<close> leave the state as it is.
\<close>

definition animate :: "ticker \<Rightarrow> real \<Rightarrow> ticker" where
  "animate s now =
     (if \<not> (has_app s \<and> has_container s) then s
      else
        let delta = (now - lastTime s) / 1000;
            s1 = s\<lparr>lastTime := now, frameCount := frameCount s + 1,
                   fpsTimer := fpsTimer s + delta\<rparr>;
            s2 = (if 1 \<le> fpsTimer s1
                  then s1\<lparr>currentFps := real (frameCount s1) / fpsTimer s1,
                          frameCount := 0, fpsTimer := 0\<rparr>
                  else s1)
        in if isScrolling s2
           then
             let scrollDelta = scrollSpeed s2 * delta;
                 direction = (if scrollDirection s2 = Right then 1 else - 1);
                 s3 = s2\<lparr>scrollOffset := scrollOffset s2 + scrollDelta * direction\<rparr>;
                 s4 = s3\<lparr>container_x := - scrollOffset s3\<rparr>;
                 loopWidth = getLoopWidth s4
             in if loopWidth < \<bar>scrollOffset s4\<bar> then s4\<lparr>scrollOffset := 0\<rparr> else s4
           else s2)"

text \<open>
  \<^verbatim>\<open>animateSprite\<close> reads the start values and registers its frame callback;
  \<open>anim_callback\<close> is one run of that callback and \<open>animation_frame\<close> one display frame,
  which runs every pending callback and keeps those with \<^verbatim>\<open>progress < 1\<close>.
\<close>

definition animateSprite ::
  "nat \<Rightarrow> real option \<Rightarrow> real option \<Rightarrow> real option \<Rightarrow> real \<Rightarrow> real \<Rightarrow> ticker \<Rightarrow> ticker" where
  "animateSprite i pscale px py dur now s =
     s\<lparr>animations := animations s @
         [\<lparr>anim_sprite = i, anim_start = now,
           startScale = sprite_scale (sprites s ! i),
           startX = sprite_x (sprites s ! i),
           startY = sprite_y (sprites s ! i),
           props_scale = pscale, props_x = px, props_y = py, props_duration = dur\<rparr>]\<rparr>"

definition anim_progress :: "real \<Rightarrow> anim \<Rightarrow> real" where
  "anim_progress now a = min ((now - anim_start a) / props_duration a) 1"

definition ease :: "real \<Rightarrow> real" where
  "ease progress =
     (if progress < 0.5 then 4 * progress * progress * progress
      else 1 - (- 2 * progress + 2) ^ 3 / 2)"

definition anim_callback :: "real \<Rightarrow> ticker \<Rightarrow> anim \<Rightarrow> ticker" where
  "anim_callback now s a =
     (let t = ease (anim_progress now a);
          sp = sprites s ! anim_sprite a;
          sp1 = (case props_scale a of None \<Rightarrow> sp
                 | Some v \<Rightarrow> sp\<lparr>sprite_scale := startScale a + (v - startScale a) * t\<rparr>);
          sp2 = (case props_x a of None \<Rightarrow> sp1
                 | Some v \<Rightarrow> sp1\<lparr>sprite_x := startX a + (v - startX a) * t\<rparr>);
          sp3 = (case props_y a of None \<Rightarrow> sp2
                 | Some v \<Rightarrow> sp2\<lparr>sprite_y := startY a + (v - startY a) * t\<rparr>)
      in s\<lparr>sprites := (sprites s)[anim_sprite a := sp3]\<rparr>)"

definition animation_frame :: "ticker \<Rightarrow> real \<Rightarrow> ticker" where
  "animation_frame s now =
     (foldl (anim_callback now) s (animations s))
       \<lparr>animations := filter (\<lambda>a. anim_progress now a < 1) (animations s)\<rparr>"

text \<open>
  The pointer handlers.  The sprite index is that of a sprite of the scene, since the
  handlers are registered per sprite.
\<close>

definition handleHoverStart :: "nat \<Rightarrow> real \<Rightarrow> ticker \<Rightarrow> ticker" where
  "handleHoverStart i now s =
     (if hoveredSprite s = Some i then s
      else
        let s1 = s\<lparr>isScrolling := False, overlay_visible := True\<rparr>;
            s2 = s1\<lparr>sprites := (sprites s1)[i := (sprites s1 ! i)\<lparr>zIndex := 2000\<rparr>],
                    hoveredSprite := Some i\<rparr>;
            sp = sprites s2 ! i;
            targetWidth = screen_width s2 * 0.6;
            targetScale = targetWidth / texture_width sp
        in animateSprite i (Some targetScale)
             (Some ((screen_width s2 - targetWidth) / 2))
             (Some ((screen_height s2 - texture_height sp * targetScale) / 2))
             300 now s2)"

definition handleHoverEnd :: "real \<Rightarrow> ticker \<Rightarrow> ticker" where
  "handleHoverEnd now s =
     (case hoveredSprite s of
        None \<Rightarrow> s
      | Some i \<Rightarrow>
          let s1 = (case originalSpriteData s i of
                      None \<Rightarrow> s
                    | Some original \<Rightarrow>
                        animateSprite i (Some (orig_scale original))
                          (Some (orig_x original - scrollOffset s))
                          (Some (orig_y original)) 300 now s)
          in s1\<lparr>sprites := (sprites s1)[i := (sprites s1 ! i)\<lparr>zIndex := 0\<rparr>],
                hoveredSprite := None, overlay_visible := False\<rparr>)"

text \<open>The callback that \<^verbatim>\<open>handleHoverEnd\<close> schedules with \<^verbatim>\<open>setTimeout\<close>.\<close>

definition resume_scrolling :: "ticker \<Rightarrow> ticker" where
  "resume_scrolling s = s\<lparr>isScrolling := True\<rparr>"

section \<open>Example inputs\<close>

text \<open>
  An atlas of two tiles in the order \<^verbatim>\<open>buildAtlas\<close> writes them (brightest first), a mask
  of two pixels whose first pixel is ink, and a mask of 5 by 3 blank pixels.
\<close>

definition two_tile_atlas :: AtlasData where
  "two_tile_atlas =
     \<lparr>tiles = [\<lparr>tile_id = 1, tile_filename = ''bright.jpg'', tile_x = 0, tile_y = 0,
                 tile_width = 128, tile_height = 128, avgColor = (200, 180, 60),
                 luma = 200, saturation = 0.8\<rparr>,
               \<lparr>tile_id = 2, tile_filename = ''dark.jpg'', tile_x = 128, tile_y = 0,
                 tile_width = 128, tile_height = 128, avgColor = (30, 30, 27),
                 luma = 30, saturation = 0.1\<rparr>],
       atlas_width = 256, atlas_height = 128, tileSize = 128\<rparr>"

definition fg_bg_mask :: GlyphMask where
  "fg_bg_mask = \<lparr>width = 2, height = 1, pixels = [1, 0]\<rparr>"

definition blank_mask_5x3 :: GlyphMask where
  "blank_mask_5x3 = \<lparr>width = 5, height = 3, pixels = replicate 15 0\<rparr>"

text \<open>
  A canvas on which every character is as wide as the font size and which reads back two
  pixels, with alpha 128 and alpha 129.
\<close>

definition edge_canvas :: canvas where
  "edge_canvas =
     \<lparr>has_context = True,
      measureText = (\<lambda>fontSize fontFamily text. real_of_int fontSize * real (length text)),
      getImageData = (\<lambda>fontSize fontFamily text padding w h.
                        [255, 255, 255, 128, 255, 255, 255, 129])\<rparr>"

text \<open>
  Photo rows: three rows, the second of which has no variant file in \<open>no_b_env\<close>, and
  the rows \<open>numbered_photo 0, 1, ...\<close>, all of which have one in \<open>all_variants_env\<close>.
\<close>

definition numbered_photo :: "nat \<Rightarrow> photo_row" where
  "numbered_photo i =
     \<lparr>photo_id = int i + 1, photo_filename = replicate (Suc i) CHR ''a'' @ ''.jpg'',
      avg_color_r = 120, avg_color_g = 110, avg_color_b = 100,
      photo_luma = 1118 / 10, photo_saturation = 1 / 6\<rparr>"

definition all_variants_env :: atlas_env where
  "all_variants_env = \<lparr>extname = (\<lambda>f. ''.jpg''), variant_exists = (\<lambda>f. True)\<rparr>"

definition three_photos :: "photo_row list" where
  "three_photos =
     [\<lparr>photo_id = 7, photo_filename = ''a.jpg'', avg_color_r = 200, avg_color_g = 100,
        avg_color_b = 50, photo_luma = 621 / 5, photo_saturation = 3 / 4\<rparr>,
      \<lparr>photo_id = 8, photo_filename = ''b.jpg'', avg_color_r = 90, avg_color_g = 90,
        avg_color_b = 90, photo_luma = 90, photo_saturation = 0\<rparr>,
      \<lparr>photo_id = 9, photo_filename = ''c.jpg'', avg_color_r = 10, avg_color_g = 20,
        avg_color_b = 40, photo_luma = 1929 / 100, photo_saturation = 3 / 4\<rparr>]"

definition no_b_env :: atlas_env where
  "no_b_env = \<lparr>extname = (\<lambda>f. ''.jpg''), variant_exists = (\<lambda>f. f \<noteq> ''b_512.webp'')\<rparr>"

text \<open>
  A photo stored by the upload handler, whose files carry a name of 32 hexadecimal digits
  and no extension, and a variants directory that holds the file written for it.
\<close>

definition uploaded_photo :: photo_row where
  "uploaded_photo =
     \<lparr>photo_id = 1, photo_filename = ''9f1c2a7b3e4d5f60718293a4b5c6d7e8'',
      avg_color_r = 200, avg_color_g = 100, avg_color_b = 50,
      photo_luma = 621 / 5, photo_saturation = 3 / 4\<rparr>"

definition upload_env :: atlas_env where
  "upload_env =
     \<lparr>extname = (\<lambda>f. if CHR ''.'' \<in> set f then ''.jpg'' else []),
      variant_exists = (\<lambda>f. f = ''9f1c2a7b3e4d5f60718293a4b5c6d7e8_512.webp'')\<rparr>"

definition numbered_photos :: "nat \<Rightarrow> photo_row list" where
  "numbered_photos n = map numbered_photo [0..<n]"

text \<open>
  An environment in which \<^verbatim>\<open>a.jpg\<close> cannot be decoded, and a scene of two tiles of
  size 16 on an 800 by 600 screen, scrolling right at 50 pixels per second.
\<close>

definition corrupt_a_env :: photo_env where
  "corrupt_a_env =
     \<lparr>analyze_error =
        (\<lambda>p. if p = ''a.jpg'' then Some ''Input file contains unsupported image format''
              else None),
      variants_error = (\<lambda>p. None),
      basename = (\<lambda>p. p),
      original_path = (\<lambda>f. f),
      ext_lower = (\<lambda>f. ''.jpg'')\<rparr>"

definition blank_ticker :: ticker where
  "blank_ticker =
     \<lparr>has_app = True, has_atlas = True, has_container = False, screen_width = 800,
      screen_height = 600, sprites = [],
      originalSpriteData = (\<lambda>i. None), scrollSpeed = 50, scrollDirection = Right,
      isScrolling = True, scrollOffset = 0, container_x = 0, hoveredSprite = None,
      overlay_visible = False, lastTime = 0, frameCount = 0, fpsTimer = 0, currentFps = 60,
      animations = []\<rparr>"

definition two_tile_scene :: ticker where
  "two_tile_scene =
     createScene
       [\<lparr>sprite_x = 0, sprite_y = 292, sprite_scale = 1 / 8, zIndex = 0,
          texture_width = 128, texture_height = 128\<rparr>,
        \<lparr>sprite_x = 16, sprite_y = 292, sprite_scale = 1 / 8, zIndex = 0,
          texture_width = 128, texture_height = 128\<rparr>] 32 blank_ticker"

text \<open>
  Pointer over sprite 1 at time 1000, two animation frames, the second at the end of the
  300 ms; pointer out at time 2000 and again two frames.
\<close>

definition hover_and_leave :: "ticker \<Rightarrow> ticker" where
  "hover_and_leave s =
     animation_frame (animation_frame (handleHoverEnd 2000
       (animation_frame (animation_frame (handleHoverStart 1 1000 s) 1150) 1300)) 2150) 2300"

text \<open>
  One display frame: the ticker callback and then the pending animation callbacks.  The
  second run hovers sprite 2, the first sprite of the duplicate, with a display frame at
  every step, and ends when the timer of \<^verbatim>\<open>handleHoverEnd\<close> has resumed the scrolling.
\<close>

definition display_frame :: "ticker \<Rightarrow> real \<Rightarrow> ticker" where
  "display_frame s now = animation_frame (animate s now) now"

definition hover_duplicate_and_leave :: "ticker \<Rightarrow> ticker" where
  "hover_duplicate_and_leave s =
     resume_scrolling (display_frame (display_frame (handleHoverEnd 2000
       (display_frame (display_frame (handleHoverStart 2 1000 s) 1150) 1300)) 2150) 2300)"

section \<open>Theorems\<close>

subsection \<open>Photo analyzer\<close>

lemma calc_ranges:
  assumes "0 \<le> r" "r \<le> 255" "0 \<le> g" "g \<le> 255" "0 \<le> b" "b \<le> 255"
  shows "0 \<le> calculateLuma r g b" "calculateLuma r g b \<le> 255"
    "0 \<le> calculateSaturation r g b" "calculateSaturation r g b \<le> 1"
proof -
  show "0 \<le> calculateLuma r g b" "calculateLuma r g b \<le> 255"
    using assms by (simp_all add: calculateLuma_def)
  let ?mx = "max (max r g) b" and ?mn = "min (min r g) b"
  have mn: "0 \<le> ?mn" "?mn \<le> ?mx" using assms by auto
  have sat: "0 \<le> calculateSaturation r g b \<and> calculateSaturation r g b \<le> 1"
  proof (cases "?mx = 0")
    case True
    then show ?thesis by (simp add: calculateSaturation_def)
  next
    case False
    with mn have pos: "0 < ?mx" by linarith
    have "0 \<le> (?mx - ?mn) / ?mx" using mn pos by simp
    moreover have "(?mx - ?mn) / ?mx \<le> 1" using mn pos by simp
    ultimately show ?thesis using False by (simp add: calculateSaturation_def Let_def)
  qed
  then show "0 \<le> calculateSaturation r g b" "calculateSaturation r g b \<le> 1" by simp_all
qed

lemma js_round_range:
  assumes "0 \<le> v" "v \<le> 255"
  shows "0 \<le> js_round v" "js_round v \<le> 255"
proof -
  show "0 \<le> js_round v" using assms(1) by (simp add: js_round_def)
  have "v + 1 / 2 < 256" using assms(2) by simp
  then have "\<lfloor>v + 1 / 2\<rfloor> < 256" by (simp add: floor_less_iff)
  then show "js_round v \<le> 255" by (simp add: js_round_def)
qed

text \<open>
  C7 fails as stated.  For the channel means (1/4, 1/4, 1/8) the formulas of the claim
  give luma 0.23575 and saturation 1/2; the analyzer rounds the means to (0, 0, 0) first
  and returns luma 0 and saturation 0.
\<close>

theorem analyzer_rounds_means_counterexample:
  "analyzeImage \<lparr>probe_width = 2, probe_height = 4, channel_means = [1 / 4, 1 / 4, 1 / 8]\<rparr>
     = Inr \<lparr>meta_width = 2, meta_height = 4, meta_avgColor = (0, 0, 0), meta_luma = 0,
            meta_saturation = 0\<rparr>
   \<and> 0.299 * (1 / 4) + 0.587 * (1 / 4) + 0.114 * (1 / 8) = (943 / 4000 :: real)
   \<and> (max (max (1 / 4) (1 / 4)) (1 / 8) - min (min (1 / 4) (1 / 4)) (1 / 8))
       / max (max (1 / 4) (1 / 4)) (1 / 8) = (1 / 2 :: real)"
  by (simp add: analyzeImage_def js_round_def calculateLuma_def calculateSaturation_def)

text \<open>
  C7, amended.  For an image whose first three channel means lie in [0, 255] the analyzer
  returns an average colour (R, G, B), the means rounded to the nearest integer, with each
  channel in [0, 255]; its luma is 0.299 R + 0.587 G + 0.114 B over these rounded values
  and lies in [0, 255]; its saturation is (max - min) / max over R, G, B, taken as 0 when
  max is 0, and lies in [0, 1].
\<close>

theorem analyzer_luma_saturation_range:
  assumes "channel_means probe = mr # mg # mb # rest"
    and "0 \<le> mr" "mr \<le> 255" "0 \<le> mg" "mg \<le> 255" "0 \<le> mb" "mb \<le> 255"
  shows "\<exists>m R G B. analyzeImage probe = Inr m \<and> meta_avgColor m = (R, G, B)
       \<and> R = js_round mr \<and> G = js_round mg \<and> B = js_round mb
       \<and> 0 \<le> R \<and> R \<le> 255 \<and> 0 \<le> G \<and> G \<le> 255 \<and> 0 \<le> B \<and> B \<le> 255
       \<and> meta_luma m = 0.299 * real_of_int R + 0.587 * real_of_int G + 0.114 * real_of_int B
       \<and> 0 \<le> meta_luma m \<and> meta_luma m \<le> 255
       \<and> meta_saturation m =
           (if max (max R G) B = 0 then 0
            else real_of_int (max (max R G) B - min (min R G) B) / real_of_int (max (max R G) B))
       \<and> 0 \<le> meta_saturation m \<and> meta_saturation m \<le> 1"
proof -
  let ?R = "js_round mr" and ?G = "js_round mg" and ?B = "js_round mb"
  let ?m = "\<lparr>meta_width = probe_width probe, meta_height = probe_height probe,
             meta_avgColor = (?R, ?G, ?B),
             meta_luma = calculateLuma (real_of_int ?R) (real_of_int ?G) (real_of_int ?B),
             meta_saturation = calculateSaturation (real_of_int ?R) (real_of_int ?G) (real_of_int ?B)\<rparr>"
  have a: "analyzeImage probe = Inr ?m"
    using assms(1) by (simp add: analyzeImage_def Let_def)
  note r = js_round_range [OF assms(2,3)] js_round_range [OF assms(4,5)]
    js_round_range [OF assms(6,7)]
  have rr: "0 \<le> real_of_int ?R" "real_of_int ?R \<le> 255" "0 \<le> real_of_int ?G"
    "real_of_int ?G \<le> 255" "0 \<le> real_of_int ?B" "real_of_int ?B \<le> 255"
    using r by simp_all
  note c = calc_ranges [OF rr]
  have mx: "max (max (real_of_int ?R) (real_of_int ?G)) (real_of_int ?B)
            = real_of_int (max (max ?R ?G) ?B)"
    "min (min (real_of_int ?R) (real_of_int ?G)) (real_of_int ?B)
            = real_of_int (min (min ?R ?G) ?B)"
    by (simp_all add: max_def min_def)
  have s: "calculateSaturation (real_of_int ?R) (real_of_int ?G) (real_of_int ?B) =
           (if max (max ?R ?G) ?B = 0 then 0
            else real_of_int (max (max ?R ?G) ?B - min (min ?R ?G) ?B)
                 / real_of_int (max (max ?R ?G) ?B))"
    unfolding calculateSaturation_def Let_def mx by simp
  have l: "calculateLuma (real_of_int ?R) (real_of_int ?G) (real_of_int ?B)
           = 0.299 * real_of_int ?R + 0.587 * real_of_int ?G + 0.114 * real_of_int ?B"
    by (simp add: calculateLuma_def)
  show ?thesis
    apply (rule exI [of _ ?m], rule exI [of _ ?R], rule exI [of _ ?G], rule exI [of _ ?B])
    using a r c s l by simp
qed

theorem analyzer_luma_saturation_range_witness:
  "\<exists>m. analyzeImage \<lparr>probe_width = 640, probe_height = 480,
                       channel_means = [1999 / 10, 1002 / 10, 50]\<rparr> = Inr m
     \<and> meta_avgColor m = (200, 100, 50) \<and> meta_luma m = 621 / 5
     \<and> meta_saturation m = 3 / 4"
  using analyzer_luma_saturation_range
    [of "\<lparr>probe_width = 640, probe_height = 480,
           channel_means = [1999 / 10, 1002 / 10, 50]\<rparr>" "1999 / 10" "1002 / 10" 50 "[]"]
  by (auto simp: js_round_def)

subsection \<open>Atlas builder\<close>

lemma ceiling_sqrt_eq:
  assumes "real_of_int (k - 1) ^ 2 < x" "x \<le> real_of_int k ^ 2" "1 \<le> k"
  shows "\<lceil>sqrt x\<rceil> = k"
proof -
  have "real_of_int (k - 1) < sqrt x"
    using assms(1,3) by (intro real_less_rsqrt) simp
  moreover have "sqrt x \<le> real_of_int k"
    using assms(2,3) by (intro real_le_lsqrt) simp_all
  ultimately show ?thesis by (simp add: ceiling_eq_iff)
qed

lemma place_tiles_eq:
  "place_tiles env t i photos =
     map (\<lambda>(k, p). atlas_tile t k p) (filter (\<lambda>(k, p). has_variant env p) (enumerate i photos))"
  by (induction photos arbitrary: i) simp_all

lemma filter_enumerate_length:
  "length (filter (\<lambda>(k, p). P p) (enumerate i xs)) = length (filter P xs)"
  by (induction xs arbitrary: i) simp_all

lemma map_snd_filter_enumerate:
  "map snd (filter (\<lambda>(k, p). P p) (enumerate i xs)) = filter P xs"
  by (induction xs arbitrary: i) simp_all

text \<open>
  What the builder does hold: for a non-empty list of photo rows it returns a metadata
  document with one tile entry for each photo that its own lookup finds, in the order of
  the rows, and none for the others; each entry carries the photo's id and filename, the
  rectangle of the photo's grid cell, and the photo's average colour, luma and saturation.
\<close>

lemma buildAtlas_tiles:
  assumes "photos \<noteq> []"
  shows "\<exists>d. buildAtlas env photos = Inr d
           \<and> length (tiles d) = length (filter (has_variant env) photos)
           \<and> map tile_id (tiles d) = map photo_id (filter (has_variant env) photos)
           \<and> map tile_filename (tiles d) = map photo_filename (filter (has_variant env) photos)
           \<and> map avgColor (tiles d) =
               map (\<lambda>p. (avg_color_r p, avg_color_g p, avg_color_b p))
                 (filter (has_variant env) photos)
           \<and> map luma (tiles d) = map photo_luma (filter (has_variant env) photos)
           \<and> map saturation (tiles d) = map photo_saturation (filter (has_variant env) photos)
           \<and> tiles d = map (\<lambda>(i, p). atlas_tile \<lceil>sqrt (real (length photos))\<rceil> i p)
                          (filter (\<lambda>(i, p). has_variant env p) (enumerate 0 photos))"
proof -
  let ?t = "\<lceil>sqrt (real (length photos))\<rceil>"
  let ?sel = "filter (\<lambda>(i, p). has_variant env p) (enumerate 0 photos)"
  let ?ts = "map (\<lambda>(i, p). atlas_tile ?t i p) ?sel"
  obtain d where d: "buildAtlas env photos = Inr d" and td: "tiles d = ?ts"
    using assms by (simp add: buildAtlas_def Let_def place_tiles_eq)
  have snd_sel: "map snd ?sel = filter (has_variant env) photos"
    by (rule map_snd_filter_enumerate)
  have field: "map f ?ts = map g (filter (has_variant env) photos)"
    if "\<And>i p. f (atlas_tile ?t i p) = g p" for f :: "AtlasTile \<Rightarrow> 'b" and g
  proof -
    have "map f ?ts = map (g \<circ> snd) ?sel"
      using that by (simp add: comp_def case_prod_beta)
    also have "\<dots> = map g (map snd ?sel)" by simp
    finally show ?thesis by (simp only: snd_sel)
  qed
  have len: "length (tiles d) = length (filter (has_variant env) photos)"
    by (simp add: td filter_enumerate_length)
  have f1: "map tile_id (tiles d) = map photo_id (filter (has_variant env) photos)"
    unfolding td by (rule field) (simp add: atlas_tile_def Let_def)
  have f2: "map tile_filename (tiles d) = map photo_filename (filter (has_variant env) photos)"
    unfolding td by (rule field) (simp add: atlas_tile_def Let_def)
  have f3: "map avgColor (tiles d) =
               map (\<lambda>p. (avg_color_r p, avg_color_g p, avg_color_b p))
                 (filter (has_variant env) photos)"
    unfolding td by (rule field) (simp add: atlas_tile_def Let_def)
  have f4: "map luma (tiles d) = map photo_luma (filter (has_variant env) photos)"
    unfolding td by (rule field) (simp add: atlas_tile_def Let_def)
  have f5: "map saturation (tiles d) = map photo_saturation (filter (has_variant env) photos)"
    unfolding td by (rule field) (simp add: atlas_tile_def Let_def)
  from d len f1 f2 f3 f4 f5 td show ?thesis by blast
qed

lemma buildAtlas_tiles_example:
  "\<exists>d. buildAtlas no_b_env three_photos = Inr d
      \<and> length (tiles d) = 2
      \<and> map tile_id (tiles d) = [7, 9]
      \<and> map tile_filename (tiles d) = [''a.jpg'', ''c.jpg'']
      \<and> map (\<lambda>t. (tile_x t, tile_y t, tile_width t, tile_height t)) (tiles d)
          = [(0, 0, 128, 128), (0, 128, 128, 128)]"
proof -
  have ne: "three_photos \<noteq> []" by (simp add: three_photos_def)
  have sel: "filter (has_variant no_b_env) three_photos = [three_photos ! 0, three_photos ! 2]"
    by (simp add: three_photos_def has_variant_def variantFilename_def no_b_env_def)
  have t: "\<lceil>sqrt (real (length three_photos))\<rceil> = 2"
    by (rule ceiling_sqrt_eq) (simp_all add: three_photos_def)
  have en: "filter (\<lambda>(i, p). has_variant no_b_env p) (enumerate 0 three_photos)
            = [(0, three_photos ! 0), (2, three_photos ! 2)]"
    by (simp add: three_photos_def has_variant_def variantFilename_def no_b_env_def)
  from buildAtlas_tiles [OF ne, of no_b_env] obtain d where
    d: "buildAtlas no_b_env three_photos = Inr d"
    and f: "length (tiles d) = length (filter (has_variant no_b_env) three_photos)"
      "map tile_id (tiles d) = map photo_id (filter (has_variant no_b_env) three_photos)"
      "map tile_filename (tiles d) = map photo_filename (filter (has_variant no_b_env) three_photos)"
    and td: "tiles d = map (\<lambda>(i, p). atlas_tile \<lceil>sqrt (real (length three_photos))\<rceil> i p)
                          (filter (\<lambda>(i, p). has_variant no_b_env p) (enumerate 0 three_photos))"
    by blast
  have r: "map (\<lambda>t. (tile_x t, tile_y t, tile_width t, tile_height t)) (tiles d)
          = [(0, 0, 128, 128), (0, 128, 128, 128)]"
    by (simp add: td t en atlas_tile_def ATLAS_TILE_SIZE_def)
  have "length (tiles d) = 2" "map tile_id (tiles d) = [7, 9]"
    "map tile_filename (tiles d) = [''a.jpg'', ''c.jpg'']"
    using f by (simp_all add: sel) (simp_all add: three_photos_def)
  with d r show ?thesis by simp
qed

text \<open>
  C4.  The variant file of the uploaded photo exists under the name that
  \<^verbatim>\<open>generateVariants\<close> wrote, the filename followed by \<^verbatim>\<open>_512.webp\<close>.  The builder
  looks for the name it gets by replacing the extension: the extension is empty, the
  replacement lands in front of the filename, no such file exists, and the metadata
  document has no tile entry for the photo.
\<close>

theorem buildAtlas_misses_written_variant:
  "written_variant upload_env uploaded_photo = ''9f1c2a7b3e4d5f60718293a4b5c6d7e8_512.webp''
   \<and> variant_exists upload_env (written_variant upload_env uploaded_photo)
   \<and> variantFilename upload_env uploaded_photo = ''_512.webp9f1c2a7b3e4d5f60718293a4b5c6d7e8''
   \<and> buildAtlas upload_env [uploaded_photo]
     = Inr \<lparr>tiles = [], atlas_width = 128, atlas_height = 128, tileSize = 128\<rparr>"
proof -
  have e: "extname upload_env (photo_filename uploaded_photo) = []"
    by (simp add: upload_env_def uploaded_photo_def)
  have w: "written_variant upload_env uploaded_photo
           = ''9f1c2a7b3e4d5f60718293a4b5c6d7e8_512.webp''"
    by (simp add: written_variant_def strip_ext_def e) (simp add: uploaded_photo_def)
  have x: "variant_exists upload_env (written_variant upload_env uploaded_photo)"
    by (simp add: w) (simp add: upload_env_def)
  have v: "variantFilename upload_env uploaded_photo
           = ''_512.webp9f1c2a7b3e4d5f60718293a4b5c6d7e8''"
    by (simp add: variantFilename_def e) (simp add: uploaded_photo_def)
  have h: "\<not> has_variant upload_env uploaded_photo"
    by (simp add: has_variant_def v) (simp add: upload_env_def)
  have b: "buildAtlas upload_env [uploaded_photo]
     = Inr \<lparr>tiles = [], atlas_width = 128, atlas_height = 128, tileSize = 128\<rparr>"
    by (simp add: buildAtlas_def h ATLAS_TILE_SIZE_def ATLAS_MAX_SIZE_def)
  from w x v b show ?thesis by simp
qed

text \<open>
  Every tile lies inside \<open>tilesPerRow * 128\<close> by the atlas height: only the cap on the
  width can leave a tile outside the image.
\<close>

lemma atlas_tile_inside_uncapped:
  assumes "i < n" "1 \<le> t"
  shows "0 \<le> tile_x (atlas_tile t i p)
       \<and> tile_x (atlas_tile t i p) + tile_width (atlas_tile t i p) \<le> t * ATLAS_TILE_SIZE
       \<and> 0 \<le> tile_y (atlas_tile t i p)
       \<and> tile_y (atlas_tile t i p) + tile_height (atlas_tile t i p)
           \<le> \<lceil>real n / real_of_int t\<rceil> * ATLAS_TILE_SIZE"
proof -
  have tpos: "0 < t" using assms(2) by simp
  have c: "0 \<le> int i mod t" "int i mod t + 1 \<le> t"
    using tpos by (simp_all add: add1_zle_eq)
  have r0: "0 \<le> int i div t" using tpos by (simp add: pos_imp_zdiv_nonneg_iff)
  have "int i div t = \<lfloor>real_of_int (int i) / real_of_int t\<rfloor>"
    by (simp only: floor_divide_of_int_eq)
  then have "real_of_int (int i div t) \<le> real_of_int (int i) / real_of_int t"
    by (simp only: of_int_floor_le)
  also have "\<dots> < real n / real_of_int t"
    using assms(1) tpos by (simp add: divide_strict_right_mono)
  also have "\<dots> \<le> real_of_int \<lceil>real n / real_of_int t\<rceil>" by simp
  finally have r1: "int i div t + 1 \<le> \<lceil>real n / real_of_int t\<rceil>" by simp
  have "(int i mod t + 1) * 128 \<le> t * 128" using c(2) by simp
  moreover have "(int i div t + 1) * 128 \<le> \<lceil>real n / real_of_int t\<rceil> * 128" using r1 by simp
  ultimately show ?thesis using c(1) r0
    by (simp add: atlas_tile_def Let_def ATLAS_TILE_SIZE_def algebra_simps)
qed

lemma numbered_photos_simps:
  "length (numbered_photos n) = n" "i < n \<Longrightarrow> numbered_photos n ! i = numbered_photo i"
  by (simp_all add: numbered_photos_def)

lemma place_tiles_all:
  assumes "\<forall>p \<in> set photos. has_variant env p"
  shows "place_tiles env t 0 photos = map (\<lambda>(k, p). atlas_tile t k p) (enumerate 0 photos)"
proof -
  have "filter (\<lambda>(k, p). has_variant env p) (enumerate 0 photos) = enumerate 0 photos"
    using assms by (intro filter_True) (auto simp: in_set_enumerate_eq)
  then show ?thesis by (simp only: place_tiles_eq)
qed

lemma place_tiles_all_nth:
  assumes "\<forall>p \<in> set photos. has_variant env p" "i < length photos"
  shows "place_tiles env t 0 photos ! i = atlas_tile t i (photos ! i)"
  using assms(2) by (simp add: place_tiles_all [OF assms(1)] nth_enumerate_eq)

text \<open>
  C2.  With 1025 photos \<open>tilesPerRow\<close> is 33: the atlas width is capped to 4096 but
  \<open>tilesPerRow\<close> is not, and the photo at index 32 is placed at x = 4096, outside the
  image.
\<close>

theorem buildAtlas_width_cap_misses_tiles:
  "\<exists>d. buildAtlas all_variants_env (numbered_photos 1025) = Inr d
      \<and> atlas_width d = 4096 \<and> atlas_height d = 4096
      \<and> length (tiles d) = 1025
      \<and> tile_id (tiles d ! 32) = 33
      \<and> tile_x (tiles d ! 32) = 4096 \<and> tile_y (tiles d ! 32) = 0
      \<and> tile_width (tiles d ! 32) = 128
      \<and> atlas_width d < tile_x (tiles d ! 32) + tile_width (tiles d ! 32)"
proof -
  let ?ps = "numbered_photos 1025"
  have len: "length ?ps = 1025" by (rule numbered_photos_simps)
  have t: "\<lceil>sqrt (real (1025 :: nat))\<rceil> = 33"
    by (rule ceiling_sqrt_eq) simp_all
  have h: "\<lceil>real (1025::nat) / real_of_int 33\<rceil> = 32"
    by (simp add: ceiling_eq_iff)
  have all: "\<forall>p \<in> set ?ps. has_variant all_variants_env p"
    by (simp add: has_variant_def all_variants_env_def)
  have b: "buildAtlas all_variants_env ?ps =
             Inr \<lparr>tiles = place_tiles all_variants_env 33 0 ?ps,
                  atlas_width = 4096, atlas_height = 4096, tileSize = 128\<rparr>"
    unfolding buildAtlas_def Let_def len t h
    by (simp add: ATLAS_TILE_SIZE_def ATLAS_MAX_SIZE_def)
  have l: "length (place_tiles all_variants_env 33 0 ?ps) = 1025"
    by (simp add: place_tiles_all [OF all] len)
  have "place_tiles all_variants_env 33 0 ?ps ! 32 = atlas_tile 33 32 (?ps ! 32)"
    by (rule place_tiles_all_nth [OF all]) (simp add: len)
  also have "?ps ! 32 = numbered_photo 32" by (simp add: numbered_photos_simps)
  finally have n32: "place_tiles all_variants_env 33 0 ?ps ! 32
                     = atlas_tile 33 32 (numbered_photo 32)" .
  have a: "tile_id (atlas_tile 33 32 (numbered_photo 32)) = 33"
    "tile_x (atlas_tile 33 32 (numbered_photo 32)) = 4096"
    "tile_y (atlas_tile 33 32 (numbered_photo 32)) = 0"
    "tile_width (atlas_tile 33 32 (numbered_photo 32)) = 128"
    by (simp_all add: atlas_tile_def numbered_photo_def ATLAS_TILE_SIZE_def)
  show ?thesis by (simp add: b l n32 a)
qed

subsection \<open>Glyph mask engine\<close>

lemma generateTextMask_Inr:
  assumes "generateTextMask fl cv text scale fontFamily = Inr m"
  shows "has_context cv"
    and "width m = mask_width fl cv text scale fontFamily"
    and "height m = mask_height fl scale"
    and "0 \<le> width m * height m"
    and "pixels m = map (\<lambda>i. threshold (alpha_at
            (getImageData cv (fontSize_of fl scale) fontFamily text (padding_of fl scale)
               (width m) (height m)) i))
            [0..<nat (width m * height m)]"
  using assms by (auto simp: generateTextMask_def Let_def split: if_splits)

lemma threshold_Some: "threshold (Some a) = (if 128 < unat a then 1 else 0)"
  by (simp add: threshold_def word_less_nat_alt)

lemma threshold_binary: "threshold a \<in> {0, 1}"
  by (simp add: threshold_def split: option.splits)

lemma edge_canvas_sizes:
  "fontSize_of (\<lambda>x. x) (1 / 64) = 1" "padding_of (\<lambda>x. x) (1 / 64) = 0"
  "mask_width (\<lambda>x. x) edge_canvas ''A'' (1 / 64) ''Rubik Black'' = 1"
  "mask_height (\<lambda>x. x) (1 / 64) = 2"
proof -
  show f: "fontSize_of (\<lambda>x. x) (1 / 64) = 1"
    by (simp add: fontSize_of_def floor_eq_iff)
  show p: "padding_of (\<lambda>x. x) (1 / 64) = 0"
    by (simp add: padding_of_def floor_eq_iff)
  show "mask_width (\<lambda>x. x) edge_canvas ''A'' (1 / 64) ''Rubik Black'' = 1"
    by (simp add: mask_width_def f p edge_canvas_def)
  show "mask_height (\<lambda>x. x) (1 / 64) = 2"
    by (simp add: mask_height_def f p ceiling_eq_iff)
qed

text \<open>
  C5 fails as stated.  At scale 1/64, where every intermediate value is a double, the text
  \<open>''A''\<close> is measured 1 pixel wide and the mask is 1 by 2: the pixel with alpha 128 is
  covered by more than half (128 > 255 / 2) and its mask byte is 0.  At scale 0 the raster
  is empty and reading it back throws; without a context the function throws as well.
\<close>

theorem generateTextMask_midpoint_counterexample:
  "generateTextMask (\<lambda>x. x) edge_canvas ''A'' (1 / 64) ''Rubik Black''
     = Inr \<lparr>width = 1, height = 2, pixels = [0, 1]\<rparr>
   \<and> alpha_at (getImageData edge_canvas 1 ''Rubik Black'' ''A'' 0 1 2) 0 = Some 128
   \<and> (255 :: real) / 2 < real (unat (128 :: 8 word))
   \<and> generateTextMask (\<lambda>x. x) edge_canvas ''A'' 0 ''Rubik Black'' = Inl IndexSizeError
   \<and> generateTextMask (\<lambda>x. x) (edge_canvas\<lparr>has_context := False\<rparr>) ''A'' (1 / 64)
        ''Rubik Black'' = Inl (Error ''Failed to get canvas context'')"
proof -
  have a: "generateTextMask (\<lambda>x. x) edge_canvas ''A'' (1 / 64) ''Rubik Black''
     = Inr \<lparr>width = 1, height = 2, pixels = [0, 1]\<rparr>"
    by (simp add: generateTextMask_def edge_canvas_sizes Let_def)
       (simp add: edge_canvas_def threshold_def alpha_at_def upt_rec)
  have b: "alpha_at (getImageData edge_canvas 1 ''Rubik Black'' ''A'' 0 1 2) 0 = Some 128"
    by (simp add: edge_canvas_def alpha_at_def)
  have c: "generateTextMask (\<lambda>x. x) edge_canvas ''A'' 0 ''Rubik Black'' = Inl IndexSizeError"
    by (simp add: generateTextMask_def mask_width_def mask_height_def fontSize_of_def
        padding_of_def edge_canvas_def Let_def)
  have d: "generateTextMask (\<lambda>x. x) (edge_canvas\<lparr>has_context := False\<rparr>) ''A'' (1 / 64)
        ''Rubik Black'' = Inl (Error ''Failed to get canvas context'')"
    by (simp add: generateTextMask_def)
  from a b c d show ?thesis by simp
qed

text \<open>
  C5, amended.  With a canvas context and a raster at least 1 pixel wide and high,
  \<open>generateTextMask\<close> returns a mask of bytes 0 and 1 in which a pixel is 1 exactly when
  its alpha byte is greater than 128, else 0.  The mask holds width * height bytes and is
  sized to bound the text plus a padding margin: its width is at least the measured text
  width plus twice the padding and its height at least 1.5 times the font size plus twice
  the padding, the padding being floor(20 * scale) in double arithmetic.
\<close>

theorem generateTextMask_threshold:
  assumes "has_context cv"
    and "1 \<le> mask_width fl cv text scale fontFamily" "1 \<le> mask_height fl scale"
  shows "\<exists>m. generateTextMask fl cv text scale fontFamily = Inr m
       \<and> width m = mask_width fl cv text scale fontFamily
       \<and> height m = mask_height fl scale
       \<and> fl (measureText cv (fontSize_of fl scale) fontFamily text
               + 2 * real_of_int \<lfloor>fl (20 * scale)\<rfloor>) \<le> real_of_int (width m)
       \<and> fl (fl (real_of_int (fontSize_of fl scale) * 1.5)
               + 2 * real_of_int \<lfloor>fl (20 * scale)\<rfloor>) \<le> real_of_int (height m)
       \<and> length (pixels m) = nat (width m * height m)
       \<and> set (pixels m) \<subseteq> {0, 1}
       \<and> (\<forall>i < length (pixels m). \<forall>a.
            alpha_at (getImageData cv (fontSize_of fl scale) fontFamily text
                        (padding_of fl scale) (width m) (height m)) i = Some a \<longrightarrow>
            (pixels m ! i = 1 \<longleftrightarrow> 128 < unat a) \<and> (pixels m ! i = 0 \<longleftrightarrow> unat a \<le> 128))"
proof -
  let ?w = "mask_width fl cv text scale fontFamily" and ?h = "mask_height fl scale"
  have wh: "\<not> ?w * ?h < 0" "?w \<noteq> 0" "?h \<noteq> 0"
    using assms(2,3) by (simp_all add: not_less)
  obtain m where m: "generateTextMask fl cv text scale fontFamily = Inr m"
    using assms(1) wh by (simp add: generateTextMask_def Let_def)
  note f = generateTextMask_Inr [OF m]
  have len: "length (pixels m) = nat (width m * height m)"
    by (subst f(5)) simp
  have bin: "set (pixels m) \<subseteq> {0, 1}"
    by (subst f(5)) (use threshold_binary in auto)
  have px: "(pixels m ! i = 1 \<longleftrightarrow> 128 < unat a) \<and> (pixels m ! i = 0 \<longleftrightarrow> unat a \<le> 128)"
    if "i < length (pixels m)"
      and "alpha_at (getImageData cv (fontSize_of fl scale) fontFamily text
                        (padding_of fl scale) (width m) (height m)) i = Some a"
    for i a
  proof -
    from that(1) len have "i < nat (width m * height m)" by simp
    then have "pixels m ! i =
        threshold (alpha_at (getImageData cv (fontSize_of fl scale) fontFamily text
                        (padding_of fl scale) (width m) (height m)) i)"
      by (subst f(5)) simp
    with that(2) show ?thesis by (simp add: threshold_Some)
  qed
  have bw: "fl (measureText cv (fontSize_of fl scale) fontFamily text
               + 2 * real_of_int \<lfloor>fl (20 * scale)\<rfloor>) \<le> real_of_int (width m)"
    unfolding f(2) mask_width_def padding_of_def by (simp add: mult.commute)
  have bh: "fl (fl (real_of_int (fontSize_of fl scale) * 1.5)
               + 2 * real_of_int \<lfloor>fl (20 * scale)\<rfloor>) \<le> real_of_int (height m)"
    unfolding f(3) mask_height_def padding_of_def by (simp add: mult.commute)
  from m f(2,3) bw bh len bin px show ?thesis by blast
qed

theorem generateTextMask_threshold_witness:
  "generateTextMask (\<lambda>x. x) edge_canvas ''A'' (1 / 64) ''Rubik Black''
     = Inr \<lparr>width = 1, height = 2, pixels = [0, 1]\<rparr>
   \<and> alpha_at (getImageData edge_canvas 1 ''Rubik Black'' ''A'' 0 1 2) 0 = Some 128
   \<and> alpha_at (getImageData edge_canvas 1 ''Rubik Black'' ''A'' 0 1 2) 1 = Some 129"
proof -
  note z = edge_canvas_sizes
  have c: "has_context edge_canvas" by (simp add: edge_canvas_def)
  have a: "alpha_at (getImageData edge_canvas 1 ''Rubik Black'' ''A'' 0 1 2) 0 = Some 128"
    "alpha_at (getImageData edge_canvas 1 ''Rubik Black'' ''A'' 0 1 2) 1 = Some 129"
    by (simp_all add: edge_canvas_def alpha_at_def)
  from generateTextMask_threshold [of edge_canvas "\<lambda>x. x" "''A''" "1 / 64" "''Rubik Black''"] c
  obtain m where m: "generateTextMask (\<lambda>x. x) edge_canvas ''A'' (1 / 64) ''Rubik Black'' = Inr m"
    and d: "width m = 1" "height m = 2" "length (pixels m) = nat (width m * height m)"
    and p: "\<forall>i < length (pixels m). \<forall>a.
            alpha_at (getImageData edge_canvas 1 ''Rubik Black'' ''A'' 0 (width m) (height m)) i
              = Some a \<longrightarrow>
            (pixels m ! i = 1 \<longleftrightarrow> 128 < unat a) \<and> (pixels m ! i = 0 \<longleftrightarrow> unat a \<le> 128)"
    by (auto simp: z)
  have l: "length (pixels m) = 2" using d by simp
  have "pixels m ! 0 = 0" "pixels m ! 1 = 1"
    using p [rule_format, of 0 128] p [rule_format, of 1 129] a l d by simp_all
  with l have "pixels m = [0, 1]"
    by (cases "pixels m"; cases "tl (pixels m)") auto
  with d have "m = \<lparr>width = 1, height = 2, pixels = [0, 1]\<rparr>" by simp
  with m a show ?thesis by simp
qed

text \<open>The shuffle follows the random draws.\<close>

lemma shuffleArray_follows_draws:
  "shuffleArray (\<lambda>_. 0) 0 [a, b] = [b, a]" "shuffleArray (\<lambda>_. 1 / 2) 0 [a, b] = [a, b]"
  by (simp_all add: shuffleArray_def)

subsection \<open>Tile-to-glyph mapper\<close>

lemma length_assign_cells:
  "length (assign_cells gmask tileSz nf nb cs fi bi) = length cs"
  by (induction cs arbitrary: fi bi) simp_all

lemma length_grid_cells: "length (grid_cells a b) = a * b"
  by (simp add: grid_cells_def length_concat comp_def sum_list_triv)

lemma sampleX_bounds:
  assumes "1 \<le> width gmask" "0 \<le> tileSz"
  shows "0 \<le> sampleX gmask tileSz tx \<and> sampleX gmask tileSz tx \<le> width gmask - 1"
proof -
  have "0 \<le> real tx * tileSz + tileSz / 2" using assms by simp
  then have "0 \<le> \<lfloor>real tx * tileSz + tileSz / 2\<rfloor>" by simp
  then show ?thesis using assms by (simp add: sampleX_def)
qed

lemma sampleY_bounds:
  assumes "1 \<le> height gmask" "0 \<le> tileSz"
  shows "0 \<le> sampleY gmask tileSz ty \<and> sampleY gmask tileSz ty \<le> height gmask - 1"
proof -
  have "0 \<le> real ty * tileSz + tileSz / 2" using assms by simp
  then have "0 \<le> \<lfloor>real ty * tileSz + tileSz / 2\<rfloor>" by simp
  then show ?thesis using assms by (simp add: sampleY_def)
qed

lemma sample_index_bounds:
  assumes "1 \<le> width gmask" "1 \<le> height gmask" "0 \<le> tileSz"
  shows "0 \<le> sample_index gmask tileSz c
       \<and> sample_index gmask tileSz c < width gmask * height gmask"
proof -
  let ?sx = "sampleX gmask tileSz (fst c)" and ?sy = "sampleY gmask tileSz (snd c)"
  have x: "0 \<le> ?sx" "?sx \<le> width gmask - 1"
    using sampleX_bounds [OF assms(1,3)] by simp_all
  have y: "0 \<le> ?sy" "?sy \<le> height gmask - 1"
    using sampleY_bounds [OF assms(2,3)] by simp_all
  have "?sy * width gmask \<le> (height gmask - 1) * width gmask"
    using y assms(1) by (intro mult_right_mono) simp_all
  then have "?sy * width gmask + ?sx \<le> (height gmask - 1) * width gmask + (width gmask - 1)"
    using x by linarith
  also have "\<dots> = width gmask * height gmask - 1" by (simp add: algebra_simps)
  finally have "?sy * width gmask + ?sx < width gmask * height gmask" by simp
  moreover have "0 \<le> ?sy * width gmask + ?sx" using x y assms(1) by simp
  ultimately show ?thesis by (simp add: sample_index_def)
qed

text \<open>
  C10.  For a mask with width and height at least 1 whose pixel array holds
  width * height bytes, and a tile size of at least 1, the centre sample of every cell is
  clamped into [0, width - 1] x [0, height - 1], the index read from the pixel array is
  inside the array, and the mapping list has ceil(width / tileSize) * ceil(height / tileSize)
  entries.
\<close>

theorem mapTilesToGlyph_reads_in_bounds:
  assumes "1 \<le> width gmask" "1 \<le> height gmask" "1 \<le> tileSz"
    and "length (pixels gmask) = nat (width gmask * height gmask)"
  shows "(\<exists>ms. mapTilesToGlyph rnd gmask atlasData tileSz = Some ms
            \<and> length ms = nat \<lceil>real_of_int (width gmask) / tileSz\<rceil>
                          * nat \<lceil>real_of_int (height gmask) / tileSz\<rceil>)
       \<and> 0 \<le> sampleX gmask tileSz tx \<and> sampleX gmask tileSz tx \<le> width gmask - 1
       \<and> 0 \<le> sampleY gmask tileSz ty \<and> sampleY gmask tileSz ty \<le> height gmask - 1
       \<and> 0 \<le> sample_index gmask tileSz (tx, ty)
       \<and> sample_index gmask tileSz (tx, ty) < int (length (pixels gmask))
       \<and> maskValue gmask (sample_index gmask tileSz (tx, ty))
           = Some (pixels gmask ! nat (sample_index gmask tileSz (tx, ty)))"
proof -
  have ts: "0 \<le> tileSz" "tileSz \<noteq> 0" using assms(3) by simp_all
  have count: "\<exists>ms. mapTilesToGlyph rnd gmask atlasData tileSz = Some ms
           \<and> length ms = nat \<lceil>real_of_int (width gmask) / tileSz\<rceil>
                         * nat \<lceil>real_of_int (height gmask) / tileSz\<rceil>"
    using ts by (simp add: mapTilesToGlyph_def length_assign_cells length_grid_cells
        tilesX_def tilesY_def)
  have sx: "0 \<le> sampleX gmask tileSz tx \<and> sampleX gmask tileSz tx \<le> width gmask - 1"
    using sampleX_bounds [OF assms(1) ts(1)] .
  have sy: "0 \<le> sampleY gmask tileSz ty \<and> sampleY gmask tileSz ty \<le> height gmask - 1"
    using sampleY_bounds [OF assms(2) ts(1)] .
  have "0 \<le> width gmask * height gmask" using assms(1,2) by simp
  then have len: "int (length (pixels gmask)) = width gmask * height gmask"
    using assms(4) by simp
  have idx: "0 \<le> sample_index gmask tileSz (tx, ty)
         \<and> sample_index gmask tileSz (tx, ty) < int (length (pixels gmask))
         \<and> maskValue gmask (sample_index gmask tileSz (tx, ty))
             = Some (pixels gmask ! nat (sample_index gmask tileSz (tx, ty)))"
    using sample_index_bounds [OF assms(1,2) ts(1), of "(tx, ty)"] len
    by (simp add: maskValue_def)
  from count sx sy idx show ?thesis by blast
qed

text \<open>
  A 5 by 3 mask cut into tiles of size 2 has partial cells on the right and at the
  bottom: 3 * 2 mappings, and the last cell's centre (5, 3) is clamped to (4, 2).
\<close>

theorem mapTilesToGlyph_reads_in_bounds_witness:
  "(\<exists>ms. mapTilesToGlyph (\<lambda>_. 1 / 4) blank_mask_5x3 two_tile_atlas 2 = Some ms \<and> length ms = 6)
   \<and> sampleX blank_mask_5x3 2 2 = 4 \<and> sampleY blank_mask_5x3 2 1 = 2
   \<and> sample_index blank_mask_5x3 2 (2, 1) = 14
   \<and> maskValue blank_mask_5x3 14 = Some 0"
proof -
  have w: "width blank_mask_5x3 = 5" "height blank_mask_5x3 = 3"
    "length (pixels blank_mask_5x3) = 15"
    by (simp_all add: blank_mask_5x3_def)
  have s: "sampleX blank_mask_5x3 2 2 = 4" "sampleY blank_mask_5x3 2 1 = 2"
    by (simp_all add: sampleX_def sampleY_def w)
  have i: "sample_index blank_mask_5x3 2 (2, 1) = 14"
    by (simp add: sample_index_def s w del: One_nat_def)
  have p: "pixels blank_mask_5x3 ! 14 = 0"
    by (simp add: blank_mask_5x3_def)
  show ?thesis
    using mapTilesToGlyph_reads_in_bounds [where gmask = blank_mask_5x3 and tileSz = 2
        and tx = 2 and ty = 1 and rnd = "\<lambda>_. 1 / 4" and atlasData = two_tile_atlas]
    by (simp add: w s i p del: One_nat_def)
qed

lemma length_shuffle_from: "length (shuffle_from rnd k i xs) = length xs"
  by (induction i arbitrary: k xs) (simp_all add: Let_def)

lemma length_shuffleArray: "length (shuffleArray rnd k xs) = length xs"
  by (simp add: shuffleArray_def length_shuffle_from)

text \<open>With draws in [0, 1) the shuffle is a permutation of its input.\<close>

lemma mset_shuffle_from:
  "i < length xs \<Longrightarrow> (\<forall>n. 0 \<le> rnd n \<and> rnd n < 1) \<Longrightarrow> mset (shuffle_from rnd k i xs) = mset xs"
proof (induction i arbitrary: k xs)
  case 0
  then show ?case by simp
next
  case (Suc i)
  let ?j = "nat \<lfloor>rnd k * real (Suc i + 1)\<rfloor>"
  have "rnd k * real (Suc i + 1) < real (Suc i + 1)" using Suc.prems(2)
    by (intro mult_strict_right_mono [of "rnd k" 1, simplified]) simp_all
  then have "\<lfloor>rnd k * real (Suc i + 1)\<rfloor> < int (Suc i + 1)" by (simp add: floor_less_iff)
  then have j: "?j < length xs" using Suc.prems(1) by linarith
  have "mset (xs[Suc i := xs ! ?j, ?j := xs ! Suc i]) = mset xs"
    using j Suc.prems(1) by (simp add: mset_swap)
  moreover have "i < length (xs[Suc i := xs ! ?j, ?j := xs ! Suc i])"
    using Suc.prems(1) by simp
  ultimately show ?case
    using Suc.IH [of "xs[Suc i := xs ! ?j, ?j := xs ! Suc i]" "Suc k"] Suc.prems(2)
    by (simp add: Let_def)
qed

text \<open>
  What the loop does hold: the mapping of the \<open>i\<close>-th cell carries the cell's flag and the
  number of earlier cells with the same flag, reduced modulo the length of the shuffled
  array; with at least one tile that number is below the tile count.
\<close>

lemma assign_cells_nth:
  "i < length cs \<Longrightarrow>
   assign_cells gmask tileSz nf nb cs fi bi ! i =
     (if cell_isForeground gmask tileSz (cs ! i)
      then \<lparr>map_x = real (fst (cs ! i)) * tileSz, map_y = real (snd (cs ! i)) * tileSz,
             tileIndex = js_mod
               (fi + length (filter (cell_isForeground gmask tileSz) (take i cs))) nf,
             isForeground = True\<rparr>
      else \<lparr>map_x = real (fst (cs ! i)) * tileSz, map_y = real (snd (cs ! i)) * tileSz,
             tileIndex = js_mod
               (bi + length (filter (\<lambda>c. \<not> cell_isForeground gmask tileSz c) (take i cs))) nb,
             isForeground = False\<rparr>)"
proof (induction cs arbitrary: i fi bi)
  case Nil
  then show ?case by simp
next
  case (Cons c cs)
  show ?case
  proof (cases i)
    case 0
    then show ?thesis by simp
  next
    case (Suc k)
    with Cons.prems have "k < length cs" by simp
    from Cons.IH [OF this] Suc show ?thesis by simp
  qed
qed

lemma mapTilesToGlyph_tileIndex_in_range:
  assumes "mapTilesToGlyph rnd gmask atlasData tileSz = Some ms" "tiles atlasData \<noteq> []"
    and "i < length ms"
  shows "\<exists>k. tileIndex (ms ! i) = Some k \<and> k < length (tiles atlasData)"
proof -
  let ?cs = "grid_cells (nat (tilesX gmask tileSz)) (nat (tilesY gmask tileSz))"
  let ?n = "length (tiles atlasData)"
  have n: "length (shuffledForeground rnd atlasData) = ?n"
    "length (shuffledBackground rnd atlasData) = ?n"
    by (simp_all add: shuffledForeground_def shuffledBackground_def length_shuffleArray
        foregroundTiles_def backgroundTiles_def)
  have pos: "0 < ?n" using assms(2) by simp
  show ?thesis
  proof (cases "tileSz = 0")
    case True
    with assms(1,3) show ?thesis by (simp add: mapTilesToGlyph_def split: if_splits)
  next
    case False
    with assms(1) have ms: "ms = assign_cells gmask tileSz ?n ?n ?cs 0 0"
      by (simp add: mapTilesToGlyph_def n)
    with assms(3) have "i < length ?cs" by (simp add: length_assign_cells)
    from assign_cells_nth [OF this, of gmask tileSz ?n ?n 0 0] pos show ?thesis
      by (simp add: ms js_mod_def)
  qed
qed

lemma grid_cells_2_1: "grid_cells 2 (Suc 0) = [(0, 0), (1, 0)]"
  by (simp add: grid_cells_def upt_rec)

text \<open>
  C1.  The mapper sorts and shuffles the tiles into a foreground and a background
  ordering but returns the position of the draw, not the tile drawn; the render engine
  reads that position in \<^verbatim>\<open>atlas.tiles\<close>.  With the two-tile atlas, the mask \<open>[1, 0]\<close>,
  tile size 1 and every random draw 1/4, the foreground ordering is [tile 2, tile 1] and
  the background ordering [tile 1, tile 2]; the foreground cell draws position 0 of the
  foreground ordering (tile 2) and is rendered with tile 1, the same tile as the
  background cell.
\<close>

theorem mapTilesToGlyph_index_misses_orderings:
  "mapTilesToGlyph (\<lambda>_. 1 / 4) fg_bg_mask two_tile_atlas 1 =
     Some [\<lparr>map_x = 0, map_y = 0, tileIndex = Some 0, isForeground = True\<rparr>,
           \<lparr>map_x = 1, map_y = 0, tileIndex = Some 0, isForeground = False\<rparr>]
   \<and> map tile_id (shuffledForeground (\<lambda>_. 1 / 4) two_tile_atlas) = [2, 1]
   \<and> map tile_id (shuffledBackground (\<lambda>_. 1 / 4) two_tile_atlas) = [1, 2]
   \<and> map_option tile_id (createScene_tile two_tile_atlas
        \<lparr>map_x = 0, map_y = 0, tileIndex = Some 0, isForeground = True\<rparr>) = Some 1
   \<and> map_option tile_id (createScene_tile two_tile_atlas
        \<lparr>map_x = 1, map_y = 0, tileIndex = Some 0, isForeground = False\<rparr>) = Some 1"
proof -
  have n: "length (shuffledForeground (\<lambda>_. 1 / 4) two_tile_atlas) = 2"
          "length (shuffledBackground (\<lambda>_. 1 / 4) two_tile_atlas) = 2"
    by (simp_all add: shuffledForeground_def shuffledBackground_def length_shuffleArray
        foregroundTiles_def backgroundTiles_def two_tile_atlas_def)
  have t: "nat (tilesX fg_bg_mask 1) = 2" "nat (tilesY fg_bg_mask 1) = 1"
    by (simp_all add: tilesX_def tilesY_def fg_bg_mask_def)
  have c0: "cell_isForeground fg_bg_mask 1 (0, 0)"
    by (simp add: cell_isForeground_def sample_index_def sampleX_def sampleY_def maskValue_def
        fg_bg_mask_def)
  have c1: "\<not> cell_isForeground fg_bg_mask 1 (Suc 0, 0)"
    by (simp add: cell_isForeground_def sample_index_def sampleX_def sampleY_def maskValue_def
        fg_bg_mask_def)
  have m: "mapTilesToGlyph (\<lambda>_. 1 / 4) fg_bg_mask two_tile_atlas 1 =
     Some [\<lparr>map_x = 0, map_y = 0, tileIndex = Some 0, isForeground = True\<rparr>,
           \<lparr>map_x = 1, map_y = 0, tileIndex = Some 0, isForeground = False\<rparr>]"
    by (simp add: mapTilesToGlyph_def n t grid_cells_2_1 c0 c1 js_mod_def)
  have f: "map tile_id (shuffledForeground (\<lambda>_. 1 / 4) two_tile_atlas) = [2, 1]"
    by (simp add: shuffledForeground_def shuffleArray_def foregroundTiles_def
        two_tile_atlas_def fg_score_def)
  have b: "map tile_id (shuffledBackground (\<lambda>_. 1 / 4) two_tile_atlas) = [1, 2]"
    by (simp add: shuffledBackground_def shuffleArray_def backgroundTiles_def
        two_tile_atlas_def bg_score_def)
  have r: "map_option tile_id (createScene_tile two_tile_atlas
        \<lparr>map_x = 0, map_y = 0, tileIndex = Some 0, isForeground = True\<rparr>) = Some 1"
     "map_option tile_id (createScene_tile two_tile_atlas
        \<lparr>map_x = 1, map_y = 0, tileIndex = Some 0, isForeground = False\<rparr>) = Some 1"
    by (simp_all add: createScene_tile_def two_tile_atlas_def)
  from m f b r show ?thesis by blast
qed

subsection \<open>Batch operations\<close>

text \<open>The upload handler reports one result per file, whatever fails.\<close>

lemma upload_loop_results:
  "map res_filename (fst (upload_loop env db files)) = map originalname files"
proof (induction files arbitrary: db)
  case Nil
  then show ?case by simp
next
  case (Cons f fs)
  obtain r db' where p: "processPhoto env db (file_path f) = (r, db')"
    by (cases "processPhoto env db (file_path f)")
  obtain results db'' where u: "upload_loop env db' fs = (results, db'')"
    by (cases "upload_loop env db' fs")
  from Cons.IH [of db'] u have "map res_filename results = map originalname fs" by simp
  then show ?case using p u by (cases r) simp_all
qed

lemma handleUpload_reports_every_file:
  "\<exists>k results db'. handleUpload env db (Some files) = (UploadDone k (length files) results, db')
       \<and> map res_filename results = map originalname files
       \<and> k = length (filter res_success results)"
proof -
  obtain results db' where u: "upload_loop env db files = (results, db')"
    by (cases "upload_loop env db files")
  with upload_loop_results [of env db files] show ?thesis
    by (simp add: handleUpload_def)
qed

text \<open>
  C8.  With \<^verbatim>\<open>a.jpg\<close> undecodable and \<^verbatim>\<open>b.jpg\<close> sound, reindexing the directory
  \<open>[a.jpg, b.jpg]\<close> ends with the error of \<^verbatim>\<open>a.jpg\<close>: \<^verbatim>\<open>b.jpg\<close> is never indexed,
  although it is when it stands alone, and no per-item result is reported.  The upload of
  the same two files reports one failure and one success.
\<close>

theorem reindex_aborts_on_first_failure:
  "handleReindexPhotos corrupt_a_env [] [''a.jpg'', ''b.jpg'']
     = (Status500 (Error ''Input file contains unsupported image format''), [])
   \<and> handleReindexPhotos corrupt_a_env [] [''b.jpg'']
     = (ReindexDone 1, [''b.jpg''])
   \<and> handleUpload corrupt_a_env []
        (Some [\<lparr>file_path = ''a.jpg'', originalname = ''a.jpg''\<rparr>,
               \<lparr>file_path = ''b.jpg'', originalname = ''b.jpg''\<rparr>])
     = (UploadDone 1 2
          [\<lparr>res_filename = ''a.jpg'', res_photoId = None, res_success = False,
             res_error = Some (Error ''Input file contains unsupported image format'')\<rparr>,
           \<lparr>res_filename = ''b.jpg'', res_photoId = Some 1, res_success = True,
             res_error = None\<rparr>],
        [''b.jpg''])"
  by (simp add: handleReindexPhotos_def reindexPhotos_def handleUpload_def processPhoto_def
      corrupt_a_env_def)

subsection \<open>Render and animation engine\<close>

lemma two_tile_scene_eq:
  "two_tile_scene = blank_ticker
     \<lparr>has_container := True, sprites := [\<lparr>sprite_x = 0, sprite_y = 292, sprite_scale = 1 / 8, zIndex = 0,
          texture_width = 128, texture_height = 128\<rparr>,
        \<lparr>sprite_x = 16, sprite_y = 292, sprite_scale = 1 / 8, zIndex = 0,
          texture_width = 128, texture_height = 128\<rparr>,
        \<lparr>sprite_x = 132, sprite_y = 292, sprite_scale = 1 / 8, zIndex = 0,
          texture_width = 128, texture_height = 128\<rparr>,
        \<lparr>sprite_x = 148, sprite_y = 292, sprite_scale = 1 / 8, zIndex = 0,
          texture_width = 128, texture_height = 128\<rparr>],
      originalSpriteData := [0 \<mapsto> \<lparr>orig_x = 0, orig_y = 292, orig_scale = 1 / 8, orig_zIndex = 0\<rparr>,
         1 \<mapsto> \<lparr>orig_x = 16, orig_y = 292, orig_scale = 1 / 8, orig_zIndex = 0\<rparr>,
         2 \<mapsto> \<lparr>orig_x = 132, orig_y = 292, orig_scale = 1 / 8, orig_zIndex = 0\<rparr>,
         3 \<mapsto> \<lparr>orig_x = 148, orig_y = 292, orig_scale = 1 / 8, orig_zIndex = 0\<rparr>]\<rparr>"
  by (simp add: two_tile_scene_def createScene_def duplicateContainerForLoop_def push_sprite_def
      saved_data_def blank_ticker_def numeral_2_eq_2 numeral_3_eq_3)

lemma sprites_foldl_push:
  "sprites (foldl (\<lambda>s' sp. push_sprite s' (f sp)) s xs) = sprites s @ map f xs"
  by (induction xs arbitrary: s) (simp_all add: push_sprite_def)

lemma has_container_foldl_push:
  "has_container (foldl (\<lambda>s' sp. push_sprite s' (f sp)) s xs) = has_container s"
  by (induction xs arbitrary: s) (simp_all add: push_sprite_def)

lemma sprites_createScene:
  assumes "has_app s" "has_atlas s"
  shows "sprites (createScene new_sprites w s) =
           (sprites s @ new_sprites)
           @ map (\<lambda>sp. sp\<lparr>sprite_x := sprite_x sp + w + 100\<rparr>) (sprites s @ new_sprites)"
proof -
  let ?s0 = "s\<lparr>has_container := True, container_x := 0\<rparr>"
  let ?s1 = "(foldl push_sprite ?s0 new_sprites)\<lparr>overlay_visible := False\<rparr>"
  have a: "sprites ?s1 = sprites s @ new_sprites"
    using sprites_foldl_push [of "\<lambda>sp. sp" ?s0 new_sprites] by simp
  have b: "has_container ?s1"
    using has_container_foldl_push [of "\<lambda>sp. sp" ?s0 new_sprites] by simp
  show ?thesis
    using assms b by (simp add: createScene_def duplicateContainerForLoop_def sprites_foldl_push a)
qed

lemma getLoopWidth_createScene:
  assumes "has_app s" "has_atlas s" "sprites s = []" "new_sprites \<noteq> []"
  shows "getLoopWidth (createScene new_sprites w s) = \<bar>w + 100\<bar>"
proof -
  let ?d = "map (\<lambda>sp. sp\<lparr>sprite_x := sprite_x sp + w + 100\<rparr>) new_sprites"
  have sp: "sprites (createScene new_sprites w s) = new_sprites @ ?d"
    using sprites_createScene [OF assms(1,2)] assms(3) by simp
  have n: "0 < length new_sprites" using assms(4) by simp
  have half: "length (new_sprites @ ?d) div 2 = length new_sprites" by simp
  have h: "(new_sprites @ ?d) ! length new_sprites = (new_sprites ! 0)\<lparr>sprite_x := sprite_x (new_sprites ! 0) + w + 100\<rparr>"
    using n by (simp add: nth_append)
  have z: "(new_sprites @ ?d) ! 0 = new_sprites ! 0"
    using n by (simp add: nth_append)
  show ?thesis
    unfolding getLoopWidth_def sp Let_def half h z using n by simp
qed

lemma animate_facts:
  assumes "has_app s" "has_container s" "isScrolling s"
  shows "has_app (animate s now)" "has_container (animate s now)" "isScrolling (animate s now)"
    "sprites (animate s now) = sprites s"
    "scrollOffset (animate s now) =
       (let advanced = scrollOffset s
              + scrollSpeed s * ((now - lastTime s) / 1000)
                * (if scrollDirection s = Right then 1 else - 1)
        in if getLoopWidth s < \<bar>advanced\<bar> then 0 else advanced)"
  using assms by (simp_all add: animate_def Let_def getLoopWidth_def)

lemma getLoopWidth_nonneg: "0 \<le> getLoopWidth s"
  by (simp add: getLoopWidth_def Let_def)

lemma getLoopWidth_animate:
  assumes "has_app s" "has_container s" "isScrolling s"
  shows "getLoopWidth (animate s now) = getLoopWidth s"
  by (simp add: getLoopWidth_def animate_facts(4) [OF assms])

lemma animate_bound:
  assumes "has_app s" "has_container s" "isScrolling s"
  shows "\<bar>scrollOffset (animate s now)\<bar> \<le> getLoopWidth s"
  using getLoopWidth_nonneg [of s] by (simp add: animate_facts(5) [OF assms] Let_def)

lemma ticks_bound:
  assumes "has_app s" "has_container s" "isScrolling s" "nows \<noteq> []"
  shows "\<bar>scrollOffset (foldl animate s nows)\<bar> \<le> getLoopWidth s
       \<and> getLoopWidth (foldl animate s nows) = getLoopWidth s"
  using assms
proof (induction nows arbitrary: s)
  case Nil
  then show ?case by simp
next
  case (Cons n ns)
  note a = animate_facts(1,2,3) [OF Cons.prems(1,2,3), of n]
  show ?case
  proof (cases "ns = []")
    case True
    then show ?thesis
      using animate_bound [OF Cons.prems(1,2,3)] getLoopWidth_animate [OF Cons.prems(1,2,3)] by simp
  next
    case False
    from Cons.IH [OF a False] show ?thesis
      by (simp add: getLoopWidth_animate [OF Cons.prems(1,2,3)])
  qed
qed

text \<open>
  What a tick does hold: in a scrolling scene it advances the offset by
  \<open>scrollSpeed * elapsedSeconds * direction\<close> and resets it to 0 exactly when the advanced
  offset exceeds what \<open>getLoopWidth\<close> returns in absolute value; the tick does not change
  that value, and after every tick of any non-empty sequence of ticks the absolute offset
  is at most that value.
\<close>

lemma animate_scroll_reset:
  assumes "has_app s" "has_container s" "isScrolling s"
  shows "scrollOffset (animate s now) =
           (let advanced = scrollOffset s
                  + scrollSpeed s * ((now - lastTime s) / 1000)
                    * (if scrollDirection s = Right then 1 else - 1)
            in if getLoopWidth s < \<bar>advanced\<bar> then 0 else advanced)
       \<and> getLoopWidth (animate s now) = getLoopWidth s
       \<and> \<bar>scrollOffset (animate s now)\<bar> \<le> getLoopWidth (animate s now)
       \<and> (\<forall>nows. nows \<noteq> [] \<longrightarrow>
            \<bar>scrollOffset (foldl animate s nows)\<bar> \<le> getLoopWidth (foldl animate s nows))"
proof -
  have "\<bar>scrollOffset (foldl animate s nows)\<bar> \<le> getLoopWidth (foldl animate s nows)"
    if "nows \<noteq> []" for nows
    using ticks_bound [OF assms that] by simp
  then show ?thesis
    using animate_facts(5) [OF assms, of now] getLoopWidth_animate [OF assms, of now]
      animate_bound [OF assms, of now]
    by simp
qed

lemma animate_scroll_reset_example:
  "scrollOffset (animate two_tile_scene 1000) = 50
   \<and> scrollOffset (animate (animate two_tile_scene 1000) 2000) = 100
   \<and> scrollOffset (animate (animate (animate two_tile_scene 1000) 2000) 3000) = 0
   \<and> getLoopWidth two_tile_scene = 132
   \<and> \<bar>scrollOffset (foldl animate two_tile_scene [1000, 2000, 3000])\<bar> \<le> 132"
proof -
  have h: "has_app two_tile_scene" "has_container two_tile_scene" "isScrolling two_tile_scene"
    by (simp_all add: two_tile_scene_eq blank_ticker_def)
  have l: "getLoopWidth two_tile_scene = 132"
    by (simp add: two_tile_scene_eq getLoopWidth_def blank_ticker_def)
  have v: "scrollOffset two_tile_scene = 0" "scrollSpeed two_tile_scene = 50"
    "lastTime two_tile_scene = 0" "scrollDirection two_tile_scene = Right"
    by (simp_all add: two_tile_scene_eq blank_ticker_def)
  note t = animate_scroll_reset [OF h, of 1000]
  have s1: "scrollOffset (animate two_tile_scene 1000) = 50"
    using t by (simp add: l v)
  have "[1000, 2000, 3000] \<noteq> ([] :: real list)" by simp
  with t have b: "\<bar>scrollOffset (foldl animate two_tile_scene [1000, 2000, 3000])\<bar>
           \<le> getLoopWidth (foldl animate two_tile_scene [1000, 2000, 3000])"
    by blast
  have s2: "scrollOffset (animate (animate two_tile_scene 1000) 2000) = 100"
    "scrollOffset (animate (animate (animate two_tile_scene 1000) 2000) 3000) = 0"
    "getLoopWidth (animate (animate (animate two_tile_scene 1000) 2000) 3000) = 132"
    by (simp_all add: two_tile_scene_eq animate_def blank_ticker_def getLoopWidth_def Let_def)
  from s1 s2 l b show ?thesis by simp
qed

text \<open>
  C6.  In the scene of two tiles the strip and its duplicate are 132 apart.  The scene
  scrolls to offset 50; sprite 2, the first sprite of the duplicate, is hovered and
  released and comes to rest at 132 - 50 = 82, while the other sprites stay where they
  were, sprite 3 still 132 from sprite 1.  \<open>getLoopWidth\<close> now returns 82: a tick that
  takes the offset to 80 leaves it, and the tick that takes it to 85 resets it to 0,
  before it has reached the distance of 132.
\<close>

theorem scroll_resets_before_loop_width:
  "getLoopWidth two_tile_scene = 132
   \<and> scrollOffset (hover_duplicate_and_leave (animate two_tile_scene 1000)) = 50
   \<and> isScrolling (hover_duplicate_and_leave (animate two_tile_scene 1000))
   \<and> animations (hover_duplicate_and_leave (animate two_tile_scene 1000)) = []
   \<and> map sprite_x (sprites (hover_duplicate_and_leave (animate two_tile_scene 1000)))
     = [0, 16, 82, 148]
   \<and> getLoopWidth (hover_duplicate_and_leave (animate two_tile_scene 1000)) = 82
   \<and> scrollOffset (animate (hover_duplicate_and_leave (animate two_tile_scene 1000)) 2900) = 80
   \<and> scrollOffset (animate (hover_duplicate_and_leave (animate two_tile_scene 1000)) 3000) = 0"
  by (simp add: hover_duplicate_and_leave_def display_frame_def resume_scrolling_def
      two_tile_scene_eq animate_def blank_ticker_def getLoopWidth_def Let_def
      handleHoverStart_def handleHoverEnd_def animateSprite_def animation_frame_def
      anim_callback_def anim_progress_def ease_def)

text \<open>
  When the reverse animation is the only one pending and runs to its end, the sprite
  arrives at its saved position shifted by the scroll offset.
\<close>

lemma hover_end_target:
  assumes "hoveredSprite s = Some i" "originalSpriteData s i = Some original"
    and "animations s = []" "i < length (sprites s)" "now + 300 \<le> now'"
  shows "sprite_x (sprites (animation_frame (handleHoverEnd now s) now') ! i)
           = orig_x original - scrollOffset s
       \<and> sprite_y (sprites (animation_frame (handleHoverEnd now s) now') ! i) = orig_y original
       \<and> sprite_scale (sprites (animation_frame (handleHoverEnd now s) now') ! i)
           = orig_scale original"
proof -
  have p: "min ((now' - now) / 300) 1 = 1" using assms(5) by simp
  show ?thesis
    using assms(1-4)
    by (simp add: handleHoverEnd_def animateSprite_def animation_frame_def anim_callback_def
        anim_progress_def ease_def p Let_def)
qed

text \<open>
  C3.  The scene scrolls to offset 50; sprite 1, saved at (16, 292) with scale 1/8, is
  hovered and enlarged to (160, 60) with scale 15/4; after hover-end and the end of the
  reverse animation it stands at x = 16 - 50 = -34, not at its saved x = 16.
\<close>

theorem hover_end_restores_shifted:
  "originalSpriteData two_tile_scene 1
     = Some \<lparr>orig_x = 16, orig_y = 292, orig_scale = 1 / 8, orig_zIndex = 0\<rparr>
   \<and> scrollOffset (animate two_tile_scene 1000) = 50
   \<and> sprites (animation_frame (animation_frame
        (handleHoverStart 1 1000 (animate two_tile_scene 1000)) 1150) 1300) ! 1
     = \<lparr>sprite_x = 160, sprite_y = 60, sprite_scale = 15 / 4, zIndex = 2000,
         texture_width = 128, texture_height = 128\<rparr>
   \<and> sprites (hover_and_leave (animate two_tile_scene 1000)) ! 1
     = \<lparr>sprite_x = - 34, sprite_y = 292, sprite_scale = 1 / 8, zIndex = 0,
         texture_width = 128, texture_height = 128\<rparr>
   \<and> animations (hover_and_leave (animate two_tile_scene 1000)) = []"
  by (simp add: hover_and_leave_def two_tile_scene_eq animate_def blank_ticker_def getLoopWidth_def Let_def
     handleHoverStart_def handleHoverEnd_def animateSprite_def animation_frame_def anim_callback_def
     anim_progress_def ease_def)


end
